theory Spec2Isabelle
  imports Main "HOL-Library.Char_ord" "HOL-Library.List_Lexorder"
begin

section \<open>Characters and strings of the Python source\<close>

text \<open>
  The transcript is a Python \<^verbatim>\<open>str\<close>. It is modelled by \<^typ>\<open>string\<close>; a character is
  classified by its code point, with the classes Python gives to the ASCII range
  (code points outside ASCII carry no class and no case here).
\<close>

definition ord :: "char \<Rightarrow> nat" where
  "ord c = of_char c"

text \<open>\<^verbatim>\<open>str.isspace\<close>, \<^verbatim>\<open>\s\<close>: tab, LF, VT, FF, CR, the separators FS..US, and the blank.\<close>

definition is_space :: "char \<Rightarrow> bool" where
  "is_space c = ((9 \<le> ord c \<and> ord c \<le> 13) \<or> (28 \<le> ord c \<and> ord c \<le> 32))"

definition is_digit :: "char \<Rightarrow> bool" where
  "is_digit c = (48 \<le> ord c \<and> ord c \<le> 57)"

definition is_upper :: "char \<Rightarrow> bool" where
  "is_upper c = (65 \<le> ord c \<and> ord c \<le> 90)"

definition is_lower :: "char \<Rightarrow> bool" where
  "is_lower c = (97 \<le> ord c \<and> ord c \<le> 122)"

text \<open>\<^verbatim>\<open>\w\<close>: letters, digits and the underscore.\<close>

definition is_word :: "char \<Rightarrow> bool" where
  "is_word c = (is_upper c \<or> is_lower c \<or> is_digit c \<or> ord c = 95)"

definition lower_c :: "char \<Rightarrow> char" where
  "lower_c c = (if is_upper c then char_of (ord c + 32) else c)"

definition upper_c :: "char \<Rightarrow> char" where
  "upper_c c = (if is_lower c then char_of (ord c - 32) else c)"

text \<open>\<^verbatim>\<open>s.lower()\<close>\<close>

definition py_lower :: "string \<Rightarrow> string" where
  "py_lower s = map lower_c s"

text \<open>\<^verbatim>\<open>s.strip()\<close>\<close>

definition py_strip :: "string \<Rightarrow> string" where
  "py_strip s = rev (dropWhile is_space (rev (dropWhile is_space s)))"

text \<open>\<^verbatim>\<open>s.isdigit()\<close>: every character a digit, and at least one character.\<close>

definition py_isdigit :: "string \<Rightarrow> bool" where
  "py_isdigit s = (s \<noteq> [] \<and> list_all is_digit s)"

text \<open>
  \<^verbatim>\<open>s.title()\<close>: a cased character is upper-cased when the character before it is not
  cased, and lower-cased otherwise; the flag is \<^verbatim>\<open>previous_is_cased\<close>.
\<close>

fun title_from :: "bool \<Rightarrow> string \<Rightarrow> string" where
  "title_from prev [] = []"
| "title_from prev (c # cs) =
     (if is_lower c then (if prev then c else upper_c c) # title_from True cs
      else if is_upper c then (if prev then lower_c c else c) # title_from True cs
      else c # title_from False cs)"

definition py_title :: "string \<Rightarrow> string" where
  "py_title s = title_from False s"

text \<open>\<^verbatim>\<open>s.startswith(p)\<close>, and \<^verbatim>\<open>sub in s\<close>.\<close>

fun starts_with :: "string \<Rightarrow> string \<Rightarrow> bool" where
  "starts_with [] s = True"
| "starts_with (p # ps) [] = False"
| "starts_with (p # ps) (c # cs) = (p = c \<and> starts_with ps cs)"

fun py_in :: "string \<Rightarrow> string \<Rightarrow> bool" where
  "py_in sub [] = (sub = [])"
| "py_in sub (c # cs) = (starts_with sub (c # cs) \<or> py_in sub cs)"

text \<open>
  \<^verbatim>\<open>s.find(sub)\<close> and \<^verbatim>\<open>s.rfind(sub)\<close>: the lowest and the highest index at which
  \<^verbatim>\<open>sub\<close> starts, \<^verbatim>\<open>-1\<close> when there is none.
\<close>

fun find_from :: "string \<Rightarrow> string \<Rightarrow> int \<Rightarrow> int" where
  "find_from sub [] i = (if sub = [] then i else - 1)"
| "find_from sub (c # cs) i = (if starts_with sub (c # cs) then i else find_from sub cs (i + 1))"

definition py_find :: "string \<Rightarrow> string \<Rightarrow> int" where
  "py_find s sub = find_from sub s 0"

fun rfind_from :: "string \<Rightarrow> string \<Rightarrow> int \<Rightarrow> int" where
  "rfind_from sub [] i = (if sub = [] then i else - 1)"
| "rfind_from sub (c # cs) i =
     (let r = rfind_from sub cs (i + 1)
      in if r \<noteq> - 1 then r else if starts_with sub (c # cs) then i else - 1)"

definition py_rfind :: "string \<Rightarrow> string \<Rightarrow> int" where
  "py_rfind s sub = rfind_from sub s 0"

text \<open>\<^verbatim>\<open>s[a:b]\<close> for \<^verbatim>\<open>0 <= a\<close>: the slice stops at the end of the string.\<close>

definition slice :: "string \<Rightarrow> nat \<Rightarrow> nat \<Rightarrow> string" where
  "slice s a b = take (b - a) (drop a s)"

text \<open>\<^verbatim>\<open>s.split()\<close>: the maximal runs of characters that are not whitespace.\<close>

fun split_ws :: "string \<Rightarrow> string \<Rightarrow> string list" where
  "split_ws acc [] = (if acc = [] then [] else [rev acc])"
| "split_ws acc (c # cs) =
     (if is_space c then (if acc = [] then split_ws [] cs else rev acc # split_ws [] cs)
      else split_ws (c # acc) cs)"

definition py_split :: "string \<Rightarrow> string list" where
  "py_split s = split_ws [] s"

text \<open>\<^verbatim>\<open>s.split(sep)\<close> for a separator of one character: empty pieces are kept.\<close>

fun split_on :: "char \<Rightarrow> string \<Rightarrow> string \<Rightarrow> string list" where
  "split_on sep acc [] = [rev acc]"
| "split_on sep acc (c # cs) =
     (if c = sep then rev acc # split_on sep [] cs else split_on sep (c # acc) cs)"

definition py_split_on :: "char \<Rightarrow> string \<Rightarrow> string list" where
  "py_split_on sep s = split_on sep [] s"

text \<open>\<^verbatim>\<open>sep.join(xs)\<close>\<close>

fun py_join :: "string \<Rightarrow> string list \<Rightarrow> string" where
  "py_join sep [] = []"
| "py_join sep [x] = x"
| "py_join sep (x # y # ys) = x @ sep @ py_join sep (y # ys)"

text \<open>
  \<^verbatim>\<open>int(s)\<close> on a string of decimal digits, and \<^verbatim>\<open>None\<close> where Python raises
  \<^verbatim>\<open>ValueError\<close> (the model reads digits only, which is all the source passes; the
  interpreter's integers are unbounded and so is \<^typ>\<open>int\<close>; the bound that an
  interpreter may be configured to put on the length of a digit string it converts is
  not part of the model).
\<close>

definition digit_val :: "char \<Rightarrow> nat" where
  "digit_val c = ord c - 48"

definition py_int :: "string \<Rightarrow> int option" where
  "py_int s =
     (if py_isdigit s then Some (foldl (\<lambda>n c. 10 * n + int (digit_val c)) 0 s) else None)"

text \<open>\<^verbatim>\<open>str(n)\<close>\<close>

fun digits_of :: "nat \<Rightarrow> string \<Rightarrow> string" where
  "digits_of n acc =
     (if n < 10 then char_of (48 + n) # acc
      else digits_of (n div 10) (char_of (48 + n mod 10) # acc))"

definition py_str :: "int \<Rightarrow> string" where
  "py_str n = (if n < 0 then CHR ''-'' # digits_of (nat (- n)) [] else digits_of (nat n) [])"

section \<open>Regular expressions of the \<^verbatim>\<open>re\<close> module\<close>

text \<open>
  The patterns of the source use character classes, the escapes \<^verbatim>\<open>\d\<close>, \<^verbatim>\<open>\s\<close> and
  \<^verbatim>\<open>\b\<close>, the anchor \<^verbatim>\<open>^\<close>, groups, alternation and greedy repetition. A pattern is
  a value of \<open>regex\<close>; the matcher is the backtracking matcher of \<^verbatim>\<open>re\<close>: it lists, in the
  order in which backtracking would reach them, all ways to match from a position, and
  a search takes the first.
\<close>

datatype citem = Lit char | Rng char char | Digit | Space

datatype regex =
    Cls "citem list"
  | NCls "citem list"
  | Eps
  | Seq regex regex
  | Alt regex regex
  | Star regex
  | Grp nat regex
  | WordB
  | Bol

text \<open>
  Under \<^verbatim>\<open>re.IGNORECASE\<close> (the flag \<open>ic\<close>) a literal or a range accepts a character when
  it accepts one of its two case variants.
\<close>

fun item_match :: "bool \<Rightarrow> citem \<Rightarrow> char \<Rightarrow> bool" where
  "item_match ic (Lit x) c = (if ic then lower_c x = lower_c c else x = c)"
| "item_match ic (Rng a b) c =
     (if ic then (ord a \<le> ord (lower_c c) \<and> ord (lower_c c) \<le> ord b)
               \<or> (ord a \<le> ord (upper_c c) \<and> ord (upper_c c) \<le> ord b)
      else ord a \<le> ord c \<and> ord c \<le> ord b)"
| "item_match ic Digit c = is_digit c"
| "item_match ic Space c = is_space c"

definition cls_match :: "bool \<Rightarrow> citem list \<Rightarrow> char \<Rightarrow> bool" where
  "cls_match ic cs c = list_ex (\<lambda>it. item_match ic it c) cs"

text \<open>\<^verbatim>\<open>\b\<close> at position \<open>i\<close>: exactly one of the two neighbours is a word character.\<close>

definition word_at :: "string \<Rightarrow> nat \<Rightarrow> bool" where
  "word_at s i = (i < length s \<and> is_word (s ! i))"

definition word_boundary :: "string \<Rightarrow> nat \<Rightarrow> bool" where
  "word_boundary s i = ((i > 0 \<and> word_at s (i - 1)) \<noteq> word_at s i)"

text \<open>\<^verbatim>\<open>^\<close> under \<^verbatim>\<open>re.MULTILINE\<close>: the start of the string or just after a newline.\<close>

definition line_start :: "string \<Rightarrow> nat \<Rightarrow> bool" where
  "line_start s i = (i = 0 \<or> (i \<le> length s \<and> s ! (i - 1) = CHR 0x0A))"

text \<open>The groups of a match: group number and matched text, the latest first.\<close>

type_synonym caps = "(nat \<times> string) list"

function re_m :: "bool \<Rightarrow> regex \<Rightarrow> string \<Rightarrow> nat \<Rightarrow> caps \<Rightarrow> (nat \<times> caps) list" where
  "re_m ic (Cls cs) s i c = (if i < length s \<and> cls_match ic cs (s ! i) then [(Suc i, c)] else [])"
| "re_m ic (NCls cs) s i c = (if i < length s \<and> \<not> cls_match ic cs (s ! i) then [(Suc i, c)] else [])"
| "re_m ic Eps s i c = [(i, c)]"
| "re_m ic (Seq a b) s i c = concat (map (\<lambda>(j, c'). re_m ic b s j c') (re_m ic a s i c))"
| "re_m ic (Alt a b) s i c = re_m ic a s i c @ re_m ic b s i c"
| "re_m ic (Star a) s i c =
     concat (map (\<lambda>(j, c'). if i < j \<and> j \<le> length s then re_m ic (Star a) s j c' else [])
                 (re_m ic a s i c)) @ [(i, c)]"
| "re_m ic (Grp n a) s i c = map (\<lambda>(j, c'). (j, (n, slice s i j) # c')) (re_m ic a s i c)"
| "re_m ic WordB s i c = (if word_boundary s i then [(i, c)] else [])"
| "re_m ic Bol s i c = (if line_start s i then [(i, c)] else [])"
  by pat_completeness auto
termination
  by (relation "inv_image (less_than <*lex*> less_than) (\<lambda>(ic, r, s, i, c). (size r, length s - i))")
     auto

text \<open>A match object: where the match starts and ends, and its groups.\<close>

record rmatch =
  m_start :: nat
  m_end :: nat
  m_caps :: caps

text \<open>\<^verbatim>\<open>m.group(0)\<close> and \<^verbatim>\<open>m.group(n)\<close>; \<open>None\<close> is a group that took no part.\<close>

definition group0 :: "string \<Rightarrow> rmatch \<Rightarrow> string" where
  "group0 s m = slice s (m_start m) (m_end m)"

definition group :: "rmatch \<Rightarrow> nat \<Rightarrow> string option" where
  "group m n = map_of (m_caps m) n"

text \<open>\<^verbatim>\<open>pattern.match(s)\<close>: a match at position 0 only.\<close>

definition re_match :: "bool \<Rightarrow> regex \<Rightarrow> string \<Rightarrow> rmatch option" where
  "re_match ic r s =
     (case re_m ic r s 0 [] of [] \<Rightarrow> None
      | (j, c) # _ \<Rightarrow> Some \<lparr>m_start = 0, m_end = j, m_caps = c\<rparr>)"

text \<open>\<^verbatim>\<open>pattern.search(s)\<close>: the match at the leftmost position that has one.\<close>

function search_from :: "bool \<Rightarrow> regex \<Rightarrow> string \<Rightarrow> nat \<Rightarrow> rmatch option" where
  "search_from ic r s i =
     (if length s < i then None
      else (case re_m ic r s i [] of
              [] \<Rightarrow> search_from ic r s (Suc i)
            | (j, c) # _ \<Rightarrow> Some \<lparr>m_start = i, m_end = j, m_caps = c\<rparr>))"
  by pat_completeness auto
termination
  by (relation "measure (\<lambda>(ic, r, s, i). Suc (length s) - i)") auto

definition re_search :: "bool \<Rightarrow> regex \<Rightarrow> string \<Rightarrow> rmatch option" where
  "re_search ic r s = search_from ic r s 0"

text \<open>
  \<^verbatim>\<open>pattern.finditer(s)\<close>: the matches from left to right, each search starting where
  the match before it ended (one further after an empty match).
\<close>

function finditer_from :: "bool \<Rightarrow> regex \<Rightarrow> string \<Rightarrow> nat \<Rightarrow> rmatch list" where
  "finditer_from ic r s i =
     (if length s < i then []
      else (case search_from ic r s i of
              None \<Rightarrow> []
            | Some m \<Rightarrow> m # finditer_from ic r s (max (Suc i) (m_end m))))"
  by pat_completeness auto
termination
  by (relation "measure (\<lambda>(ic, r, s, i). Suc (length s) - i)") auto

text \<open>\<^verbatim>\<open>pattern.findall(s)\<close> for a pattern without groups, and for one with a single group.\<close>

definition findall0 :: "bool \<Rightarrow> regex \<Rightarrow> string \<Rightarrow> string list" where
  "findall0 ic r s = map (group0 s) (finditer_from ic r s 0)"

definition findall1 :: "bool \<Rightarrow> regex \<Rightarrow> string \<Rightarrow> string list" where
  "findall1 ic r s =
     map (\<lambda>m. case group m 1 of None \<Rightarrow> [] | Some g \<Rightarrow> g) (finditer_from ic r s 0)"

text \<open>\<^verbatim>\<open>re.sub(pattern, '', s)\<close>: every match is cut out, the text between matches stays.\<close>

function sub_from :: "bool \<Rightarrow> regex \<Rightarrow> string \<Rightarrow> nat \<Rightarrow> string" where
  "sub_from ic r s i =
     (if length s < i then []
      else (case search_from ic r s i of
              None \<Rightarrow> drop i s
            | Some m \<Rightarrow> slice s i (m_start m) @ sub_from ic r s (max (Suc i) (m_end m))))"
  by pat_completeness auto
termination
  by (relation "measure (\<lambda>(ic, r, s, i). Suc (length s) - i)") auto

definition re_sub_empty :: "bool \<Rightarrow> regex \<Rightarrow> string \<Rightarrow> string" where
  "re_sub_empty ic r s = sub_from ic r s 0"

subsection \<open>Pattern syntax\<close>

text \<open>
  A literal string, \<^verbatim>\<open>r+\<close>, \<^verbatim>\<open>r?\<close>, \<^verbatim>\<open>r{n}\<close>, \<^verbatim>\<open>r{lo,hi}\<close>, \<^verbatim>\<open>r{lo,}\<close>, a sequence and an
  alternation of several patterns. All repetition is greedy: one more round is tried
  before stopping.
\<close>

definition lit :: "string \<Rightarrow> regex" where
  "lit s = foldr (\<lambda>c r. Seq (Cls [Lit c]) r) s Eps"

definition Plus :: "regex \<Rightarrow> regex" where
  "Plus r = Seq r (Star r)"

definition Opt :: "regex \<Rightarrow> regex" where
  "Opt r = Alt r Eps"

fun Rep :: "nat \<Rightarrow> regex \<Rightarrow> regex" where
  "Rep 0 r = Eps"
| "Rep (Suc n) r = Seq r (Rep n r)"

fun RepUpTo :: "nat \<Rightarrow> regex \<Rightarrow> regex" where
  "RepUpTo 0 r = Eps"
| "RepUpTo (Suc n) r = Opt (Seq r (RepUpTo n r))"

definition RepRange :: "nat \<Rightarrow> nat \<Rightarrow> regex \<Rightarrow> regex" where
  "RepRange lo hi r = Seq (Rep lo r) (RepUpTo (hi - lo) r)"

definition RepMin :: "nat \<Rightarrow> regex \<Rightarrow> regex" where
  "RepMin lo r = Seq (Rep lo r) (Star r)"

definition seqs :: "regex list \<Rightarrow> regex" where
  "seqs rs = foldr Seq rs Eps"

fun alts :: "regex list \<Rightarrow> regex" where
  "alts [] = Cls []"
| "alts [r] = r"
| "alts (r # rs) = Alt r (alts rs)"

abbreviation digit :: regex where "digit \<equiv> Cls [Digit]"
abbreviation space :: regex where "space \<equiv> Cls [Space]"

section \<open>The patterns and lexicons of \<^verbatim>\<open>services/nlp.py\<close>\<close>

text \<open>
  \<^verbatim>\<open>EMAIL_PATTERN\<close> (with \<^verbatim>\<open>re.IGNORECASE\<close>):
  \<^verbatim>\<open>\b[A-Za-z0-9._%+-]+@[A-Za-z0-9.-]+\.[A-Z|a-z]{2,}\b\<close>
\<close>

definition EMAIL_PATTERN :: regex where
  "EMAIL_PATTERN =
     seqs [WordB,
           Plus (Cls [Rng CHR ''A'' CHR ''Z'', Rng CHR ''a'' CHR ''z'', Rng CHR ''0'' CHR ''9'',
                      Lit CHR ''.'', Lit CHR ''_'', Lit CHR ''%'', Lit CHR ''+'', Lit CHR ''-'']),
           lit ''@'',
           Plus (Cls [Rng CHR ''A'' CHR ''Z'', Rng CHR ''a'' CHR ''z'', Rng CHR ''0'' CHR ''9'',
                      Lit CHR ''.'', Lit CHR ''-'']),
           lit ''.'',
           RepMin 2 (Cls [Rng CHR ''A'' CHR ''Z'', Lit CHR ''|'', Rng CHR ''a'' CHR ''z'']),
           WordB]"

text \<open>
  \<^verbatim>\<open>PHONE_PATTERN\<close> (no flag):
  \<^verbatim>\<open>(\+?\d{1,3}[-.\s]?)?\(?\d{3}\)?[-.\s]?\d{3}[-.\s]?\d{4}\<close>
\<close>

definition phone_sep :: regex where
  "phone_sep = Cls [Lit CHR ''-'', Lit CHR ''.'', Space]"

definition PHONE_PATTERN :: regex where
  "PHONE_PATTERN =
     seqs [Opt (Grp 1 (seqs [Opt (lit ''+''), RepRange 1 3 digit, Opt phone_sep])),
           Opt (lit ''(''), Rep 3 digit, Opt (lit '')''), Opt phone_sep,
           Rep 3 digit, Opt phone_sep, Rep 4 digit]"

text \<open>\<^verbatim>\<open>YEAR_PATTERN\<close>: \<^verbatim>\<open>\b(19\d{2}|20\d{2})\b\<close>; \<^verbatim>\<open>RECENT_YEAR_PATTERN\<close>: \<^verbatim>\<open>\b(20[0-3]\d)\b\<close>\<close>

definition YEAR_PATTERN :: regex where
  "YEAR_PATTERN =
     seqs [WordB, Grp 1 (Alt (Seq (lit ''19'') (Rep 2 digit)) (Seq (lit ''20'') (Rep 2 digit))),
           WordB]"

definition RECENT_YEAR_PATTERN :: regex where
  "RECENT_YEAR_PATTERN =
     seqs [WordB, Grp 1 (seqs [lit ''20'', Cls [Rng CHR ''0'' CHR ''3''], digit]), WordB]"

text \<open>
  \<^verbatim>\<open>EXPERIENCE_PATTERNS\<close>, all compiled with \<^verbatim>\<open>re.IGNORECASE\<close>:
  \<^verbatim>\<open>(\d+)\s*(?:years?|yrs?)\s*(?:of\s*)?experience\<close>,
  \<^verbatim>\<open>experience\s*(?:of\s*)?(\d+)\s*(?:years?|yrs?)\<close>,
  \<^verbatim>\<open>(\d+)\s*(?:years?|yrs?)\s*(?:in|working)\<close>.
\<close>

definition years_unit :: regex where
  "years_unit = Alt (Seq (lit ''year'') (Opt (lit ''s''))) (Seq (lit ''yr'') (Opt (lit ''s'')))"

definition EXPERIENCE_PATTERNS :: "regex list" where
  "EXPERIENCE_PATTERNS =
    [seqs [Grp 1 (Plus digit), Star space, years_unit, Star space,
           Opt (Seq (lit ''of'') (Star space)), lit ''experience''],
     seqs [lit ''experience'', Star space, Opt (Seq (lit ''of'') (Star space)),
           Grp 1 (Plus digit), Star space, years_unit],
     seqs [Grp 1 (Plus digit), Star space, years_unit, Star space,
           Alt (lit ''in'') (lit ''working'')]]"

text \<open>\<^verbatim>\<open>CITY_PATTERN\<close> (with \<^verbatim>\<open>re.IGNORECASE\<close>): \<^verbatim>\<open>\b(chennai|mumbai|...|wadi)\b\<close>\<close>

definition CITIES :: "string list" where
  "CITIES =
   [''chennai'', ''mumbai'', ''delhi'', ''bangalore'', ''hyderabad'', ''pune'',
    ''kolkata'', ''ahmedabad'', ''jaipur'', ''surat'', ''lucknow'', ''kanpur'', ''nagpur'',
    ''indore'', ''thane'', ''bhopal'', ''visakhapatnam'', ''patna'', ''vadodara'',
    ''ghaziabad'', ''ludhiana'', ''agra'', ''nashik'', ''faridabad'', ''meerut'',
    ''rajkot'', ''varanasi'', ''srinagar'', ''amritsar'', ''jodhpur'', ''raipur'',
    ''allahabad'', ''coimbatore'', ''jabalpur'', ''gwalior'', ''vijayawada'', ''madurai'',
    ''kota'', ''guwahati'', ''chandigarh'', ''solapur'', ''hubli'', ''bareilly'',
    ''moradabad'', ''gurgaon'', ''aligarh'', ''jalandhar'', ''tiruchirappalli'',
    ''bhubaneswar'', ''salem'', ''warangal'', ''thiruvananthapuram'', ''bhiwandi'',
    ''saharanpur'', ''gorakhpur'', ''guntur'', ''bikaner'', ''amravati'', ''noida'',
    ''bhavnagar'', ''dehradun'', ''kolhapur'', ''ajmer'', ''gulbarga'', ''jamnagar'',
    ''udaipur'', ''maheshtala'', ''tirunelveli'', ''davanagere'', ''kozhikode'', ''akola'',
    ''kurnool'', ''rajahmundry'', ''ballari'', ''agartala'', ''bhagalpur'', ''latur'',
    ''dhule'', ''korba'', ''bhimavaram'', ''panvel'', ''bhatpara'', ''machilipatnam'',
    ''raichur'', ''puducherry'', ''pali'', ''tumkur'', ''bharatpur'', ''ichalkaranji'',
    ''parbhani'', ''hapur'', ''sirsa'', ''baripada'', ''budaun'', ''jagdalpur'',
    ''motihari'', ''rourkela'', ''baghpat'', ''adoni'', ''ujjain'', ''sangli'', ''lahar'',
    ''ratlam'', ''dharmavaram'', ''kashipur'', ''sujangarh'', ''masaurhi'', ''wadi'']"

definition CITY_PATTERN :: regex where
  "CITY_PATTERN = seqs [WordB, Grp 1 (alts (map lit CITIES)), WordB]"

text \<open>
  The sets of the source are listed in the order of the source text; they are only
  tested for membership, or iterated into a result that is sorted afterwards.
\<close>

definition EXCLUDED_LOCATION_TERMS :: "string list" where
  "EXCLUDED_LOCATION_TERMS =
   [''python'', ''java'', ''javascript'', ''react'', ''angular'', ''vue'', ''node'',
    ''sql'', ''mongodb'', ''postgresql'', ''mysql'', ''aws'', ''azure'', ''docker'',
    ''kubernetes'', ''git'', ''linux'', ''html'', ''css'', ''typescript'', ''c++'', ''c#'',
    ''.net'', ''spring'', ''django'', ''flask'', ''fastapi'', ''tensorflow'', ''pytorch'',
    ''pandas'', ''numpy'', ''machine learning'', ''ai'', ''data science'', ''api'',
    ''rest'', ''graphql'', ''json'', ''xml'', ''http'', ''https'', ''india'',
    ''south india'', ''north india'', ''east india'', ''west india'', ''usa'', ''uk'',
    ''united states'', ''us'', ''programming'', ''code'', ''software'', ''developer'']"

definition SKILLS_KEYWORDS :: "string list" where
  "SKILLS_KEYWORDS =
   [''python'', ''java'', ''javascript'', ''react'', ''angular'', ''vue'', ''node'',
    ''sql'', ''mongodb'', ''postgresql'', ''mysql'', ''aws'', ''azure'', ''docker'',
    ''kubernetes'', ''git'', ''linux'', ''html'', ''css'', ''typescript'', ''c++'', ''c#'',
    ''.net'', ''spring'', ''django'', ''flask'', ''fastapi'', ''machine learning'', ''ai'',
    ''data science'', ''tensorflow'', ''pytorch'', ''pandas'', ''numpy'', ''redis'',
    ''elasticsearch'', ''kafka'', ''rabbitmq'', ''jenkins'', ''terraform'', ''ansible'',
    ''prometheus'', ''grafana'', ''splunk'', ''tableau'', ''powerbi'']"

definition SPECIALIZATIONS :: "string list" where
  "SPECIALIZATIONS =
   [''computer science engineering'', ''computer science and engineering'', ''cse'',
    ''computer science'', ''computer engineering'', ''information technology'',
    ''information technology engineering'', ''mechanical engineering'',
    ''civil engineering'', ''electrical engineering'', ''electronics engineering'',
    ''chemical engineering'', ''aerospace engineering'', ''biotechnology'',
    ''biomedical engineering'', ''data science'', ''artificial intelligence'',
    ''machine learning'', ''software engineering'', ''business administration'',
    ''management'', ''finance'', ''marketing'', ''accounting'', ''mathematics'',
    ''physics'', ''chemistry'', ''biology'', ''statistics'', ''economics'', ''it'']"

definition GRADUATION_KEYWORDS :: "string list" where
  "GRADUATION_KEYWORDS =
   [''graduate'', ''graduation'', ''completed'', ''finished'', ''degree'', ''graduated'',
    ''pass out'', ''passout'', ''studied'']"

definition DEGREE_KEYWORDS :: "string list" where
  "DEGREE_KEYWORDS =
   [''degree'', ''graduated'', ''completed'', ''studied'', ''education'',
    ''qualification'', ''bachelor'', ''master'']"

section \<open>The annotation of the entity tagger\<close>

text \<open>
  What the extractors read of a spaCy \<^verbatim>\<open>Doc\<close>: the entities, each with its text and its
  label (\<^verbatim>\<open>ent.text\<close>, \<^verbatim>\<open>ent.label_\<close>), and the texts of the sentences (\<^verbatim>\<open>sent.text\<close>),
  both in document order.
\<close>

record doc =
  ents :: "(string \<times> string) list"
  sents :: "string list"

text \<open>\<^verbatim>\<open>[ent.text.strip() for ent in doc.ents if ent.label_ == label]\<close>\<close>

definition ents_with :: "string \<Rightarrow> doc \<Rightarrow> string list" where
  "ents_with label d = map (\<lambda>ent. py_strip (fst ent)) (filter (\<lambda>ent. snd ent = label) (ents d))"

text \<open>\<^verbatim>\<open>any(keyword in text for keyword in keywords)\<close>\<close>

definition has_keyword :: "string list \<Rightarrow> string \<Rightarrow> bool" where
  "has_keyword keywords text = list_ex (\<lambda>keyword. py_in keyword text) keywords"

section \<open>Exceptions\<close>

text \<open>
  Every extractor returns \<open>Inr\<close> of its result, or \<open>Inl\<close> of the exception it raises.
  The places that can raise are: a method called on a group that is \<^verbatim>\<open>None\<close>
  (\<^verbatim>\<open>AttributeError\<close>), \<^verbatim>\<open>int\<close> of \<^verbatim>\<open>None\<close> (\<^verbatim>\<open>TypeError\<close>) or of text that is not a number
  (\<^verbatim>\<open>ValueError\<close>), \<^verbatim>\<open>min\<close> of an empty list (\<^verbatim>\<open>ValueError\<close>), and a list index out
  of range (\<^verbatim>\<open>IndexError\<close>).
\<close>

datatype error = ValueError | TypeError | AttributeError | IndexError

text \<open>\<^verbatim>\<open>m.group(n).strip()\<close> and the like: the text of the group, if it took part.\<close>

definition group_text :: "rmatch \<Rightarrow> nat \<Rightarrow> error + string" where
  "group_text m n = (case group m n of None \<Rightarrow> Inl AttributeError | Some g \<Rightarrow> Inr g)"

text \<open>\<^verbatim>\<open>int(m.group(n))\<close>\<close>

definition group_int :: "rmatch \<Rightarrow> nat \<Rightarrow> error + int" where
  "group_int m n =
     (case group m n of
        None \<Rightarrow> Inl TypeError
      | Some g \<Rightarrow> (case py_int g of None \<Rightarrow> Inl ValueError | Some v \<Rightarrow> Inr v))"

text \<open>\<^verbatim>\<open>min(xs)\<close>\<close>

definition py_min :: "int list \<Rightarrow> error + int" where
  "py_min xs = (case xs of [] \<Rightarrow> Inl ValueError | x # rest \<Rightarrow> Inr (foldl min x rest))"

section \<open>The simple field extractors\<close>

text \<open>\<^verbatim>\<open>validate_email\<close>: \<^verbatim>\<open>bool(EMAIL_PATTERN.match(email))\<close>\<close>

definition validate_email :: "string \<Rightarrow> bool" where
  "validate_email email = (re_match True EMAIL_PATTERN email \<noteq> None)"

text \<open>
  \<^verbatim>\<open>validate_phone\<close>: \<^verbatim>\<open>digits = re.sub(r'[^\d+]', '', phone)\<close>, then
  \<^verbatim>\<open>10 <= len(digits) <= 15\<close>.
\<close>

definition validate_phone :: "string \<Rightarrow> bool" where
  "validate_phone phone =
     (let digits = re_sub_empty False (NCls [Digit, Lit CHR ''+'']) phone
      in 10 \<le> length digits \<and> length digits \<le> 15)"

text \<open>\<^verbatim>\<open>validate_year\<close>\<close>

definition validate_year :: "int \<Rightarrow> bool" where
  "validate_year year = (1950 \<le> year \<and> year \<le> 2030)"

text \<open>\<^verbatim>\<open>extract_email\<close>: the first of \<^verbatim>\<open>findall\<close> that validates, lower-cased and stripped.\<close>

definition extract_email :: "string \<Rightarrow> string option" where
  "extract_email transcript =
     (case List.find validate_email (findall0 True EMAIL_PATTERN transcript) of
        None \<Rightarrow> None
      | Some email \<Rightarrow> Some (py_strip (py_lower email)))"

text \<open>\<^verbatim>\<open>extract_phone\<close>: \<^verbatim>\<open>PHONE_PATTERN.search\<close>, then \<^verbatim>\<open>validate_phone\<close> of the stripped match.\<close>

definition extract_phone :: "string \<Rightarrow> string option" where
  "extract_phone transcript =
     (case re_search False PHONE_PATTERN transcript of
        None \<Rightarrow> None
      | Some phone_match \<Rightarrow>
          (let phone = py_strip (group0 transcript phone_match)
           in if validate_phone phone then Some phone else None))"

text \<open>
  \<^verbatim>\<open>extract_experience\<close>: the patterns in order; \<^verbatim>\<open>int(match.group(1))\<close> of the first
  match of a pattern, returned when \<^verbatim>\<open>0 < years <= 50\<close>; otherwise the next pattern.
\<close>

fun experience_loop :: "regex list \<Rightarrow> string \<Rightarrow> error + string option" where
  "experience_loop [] transcript = Inr None"
| "experience_loop (pattern # rest) transcript =
     (case re_search True pattern transcript of
        None \<Rightarrow> experience_loop rest transcript
      | Some m \<Rightarrow>
          (case group_int m 1 of
             Inl e \<Rightarrow> Inl e
           | Inr years \<Rightarrow>
               if 0 < years \<and> years \<le> 50 then Inr (Some (py_str years @ '' years''))
               else experience_loop rest transcript))"

definition extract_experience :: "string \<Rightarrow> error + string option" where
  "extract_experience transcript = experience_loop EXPERIENCE_PATTERNS transcript"

text \<open>
  \<^verbatim>\<open>extract_skills\<close>: \<^verbatim>\<open>found\<close> is the intersection of the keywords with the set of
  whitespace tokens of the lower-cased transcript; \<^verbatim>\<open>found_skills\<close> takes the keywords
  with a blank that occur in the lower-cased transcript, then \<^verbatim>\<open>found\<close>, all title-cased;
  the result is \<^verbatim>\<open>sorted(set(found_skills))\<close> joined by a comma and a blank.
\<close>

definition extract_skills :: "string \<Rightarrow> string option" where
  "extract_skills transcript =
     (let transcript_lower = py_lower transcript;
          found = filter (\<lambda>skill. skill \<in> set (py_split transcript_lower)) SKILLS_KEYWORDS;
          found_skills =
            map py_title (filter (\<lambda>skill. py_in '' '' skill \<and> py_in skill transcript_lower)
                                 SKILLS_KEYWORDS)
            @ map py_title found;
          unique_skills = sort (remdups found_skills)
      in if unique_skills \<noteq> [] then Some (py_join '', '' unique_skills) else None)"

section \<open>The entity-assisted extractors\<close>

text \<open>
  \<^verbatim>\<open>max(valid_locations, key=len)\<close>: the first of the longest entries (\<open>best\<close> is the
  longest so far).
\<close>

fun max_len :: "string \<Rightarrow> string list \<Rightarrow> string" where
  "max_len best [] = best"
| "max_len best (x # xs) = max_len (if length best < length x then x else best) xs"

text \<open>\<^verbatim>\<open>extract_location\<close>\<close>

definition valid_location :: "string \<Rightarrow> bool" where
  "valid_location loc =
     (py_lower loc \<notin> set EXCLUDED_LOCATION_TERMS \<and> length loc > 2 \<and>
      \<not> py_isdigit loc \<and> \<not> list_ex is_digit loc)"

definition extract_location :: "string \<Rightarrow> doc option \<Rightarrow> error + string option" where
  "extract_location transcript doc =
     (case re_search True CITY_PATTERN transcript of
        Some city_match \<Rightarrow>
          (case group_text city_match 1 of
             Inl e \<Rightarrow> Inl e
           | Inr city \<Rightarrow> Inr (Some (py_title city)))
      | None \<Rightarrow>
          (case doc of
             None \<Rightarrow> Inr None
           | Some d \<Rightarrow>
               (case filter valid_location (ents_with ''GPE'' d) of
                  [] \<Rightarrow> Inr None
                | loc # locs \<Rightarrow> Inr (Some (max_len loc locs)))))"

text \<open>
  \<^verbatim>\<open>extract_graduation_year\<close>. First the loop over \<^verbatim>\<open>doc.sents\<close>: in a sentence with a
  graduation keyword, \<^verbatim>\<open>YEAR_PATTERN.search\<close>; its year is returned when it validates,
  and otherwise the loop goes on with the next sentence.
\<close>

fun graduation_sents :: "string list \<Rightarrow> error + int option" where
  "graduation_sents [] = Inr None"
| "graduation_sents (sent # rest) =
     (if has_keyword GRADUATION_KEYWORDS (py_lower sent) then
        (case re_search False YEAR_PATTERN sent of
           None \<Rightarrow> graduation_sents rest
         | Some year_match \<Rightarrow>
             (case group_int year_match 1 of
                Inl e \<Rightarrow> Inl e
              | Inr year \<Rightarrow>
                  if validate_year year then Inr (Some year) else graduation_sents rest))
      else graduation_sents rest)"

text \<open>\<^verbatim>\<open>[int(y) for y in recent_years if validate_year(int(y))]\<close>\<close>

fun valid_years :: "string list \<Rightarrow> error + int list" where
  "valid_years [] = Inr []"
| "valid_years (y # ys) =
     (case py_int y of
        None \<Rightarrow> Inl ValueError
      | Some v \<Rightarrow>
          (case valid_years ys of
             Inl e \<Rightarrow> Inl e
           | Inr vs \<Rightarrow> Inr (if validate_year v then v # vs else vs)))"

text \<open>
  The fallback: \<^verbatim>\<open>RECENT_YEAR_PATTERN.findall(transcript)\<close>, and \<^verbatim>\<open>max(years)\<close> of those
  that validate.
\<close>

definition graduation_fallback :: "string \<Rightarrow> error + int option" where
  "graduation_fallback transcript =
     (let recent_years = findall1 False RECENT_YEAR_PATTERN transcript
      in if recent_years \<noteq> [] then
           (case valid_years recent_years of
              Inl e \<Rightarrow> Inl e
            | Inr [] \<Rightarrow> Inr None
            | Inr (y # ys) \<Rightarrow> Inr (Some (foldl max y ys)))
         else Inr None)"

definition extract_graduation_year :: "string \<Rightarrow> doc option \<Rightarrow> error + int option" where
  "extract_graduation_year transcript doc =
     (case doc of
        None \<Rightarrow> graduation_fallback transcript
      | Some d \<Rightarrow>
          (case graduation_sents (sents d) of
             Inl e \<Rightarrow> Inl e
           | Inr (Some year) \<Rightarrow> Inr (Some year)
           | Inr None \<Rightarrow> graduation_fallback transcript))"

text \<open>
  \<^verbatim>\<open>extract_college\<close>. The prefixes are removed one after the other, each by
  \<^verbatim>\<open>re.sub(prefix_pattern, '', college, flags=re.IGNORECASE).strip()\<close>.
\<close>

definition prefixes_to_remove :: "regex list" where
  "prefixes_to_remove =
     [seqs [WordB, lit ''I graduated from'', Plus space],
      seqs [WordB, lit ''graduated from'', Plus space],
      seqs [WordB, lit ''I studied at'', Plus space],
      seqs [WordB, lit ''studied at'', Plus space],
      seqs [WordB, lit ''I am from'', Plus space],
      seqs [WordB, lit ''from'', Plus space],
      seqs [WordB, lit ''at'', Plus space]]"

definition remove_prefixes :: "string \<Rightarrow> string" where
  "remove_prefixes college =
     foldl (\<lambda>college prefix_pattern. py_strip (re_sub_empty True prefix_pattern college))
           college prefixes_to_remove"

text \<open>
  \<^verbatim>\<open>\b([A-Z][a-zA-Z\s]+(?:University|College|Institute|School|Academy))\b\<close>, compiled
  without a flag.
\<close>

definition college_pattern :: regex where
  "college_pattern =
     seqs [WordB,
           Grp 1 (seqs [Cls [Rng CHR ''A'' CHR ''Z''],
                        Plus (Cls [Rng CHR ''a'' CHR ''z'', Rng CHR ''A'' CHR ''Z'', Space]),
                        alts (map lit [''University'', ''College'', ''Institute'', ''School'',
                                       ''Academy''])]),
           WordB]"

definition college_keywords :: "string list" where
  "college_keywords = [''university'', ''college'', ''institute'', ''school'', ''academy'']"

text \<open>The loop over the \<^verbatim>\<open>ORG\<close> entities.\<close>

fun college_orgs :: "string list \<Rightarrow> string option" where
  "college_orgs [] = None"
| "college_orgs (org # rest) =
     (let org_lower = py_lower org
      in if has_keyword college_keywords org_lower then
           (if 5 \<le> length org \<and> length org \<le> 100 \<and>
               org_lower \<notin> set [''university'', ''college'', ''school'']
            then Some (remove_prefixes org)
            else college_orgs rest)
         else college_orgs rest)"

definition extract_college :: "string \<Rightarrow> doc option \<Rightarrow> error + string option" where
  "extract_college transcript doc =
     (case doc of
        None \<Rightarrow>
          (case re_search False college_pattern transcript of
             None \<Rightarrow> Inr None
           | Some m \<Rightarrow>
               (case group_text m 1 of
                  Inl e \<Rightarrow> Inl e
                | Inr g \<Rightarrow>
                    (let college = remove_prefixes (py_strip g)
                     in if 5 \<le> length college \<and> length college \<le> 100 then Inr (Some college)
                        else Inr None)))
      | Some d \<Rightarrow> Inr (college_orgs (ents_with ''ORG'' d)))"

text \<open>
  \<^verbatim>\<open>extract_name\<close>. Without an annotation, two patterns under
  \<^verbatim>\<open>re.IGNORECASE | re.MULTILINE\<close>:
  \<^verbatim>\<open>(?:my name is|i am|i'm|this is)\s+([A-Z][a-z]+(?:\s+[A-Z][a-z]+)*)\<close> and
  \<^verbatim>\<open>^([A-Z][a-z]+(?:\s+[A-Z][a-z]+)*)(?:\s+here|\s+speaking)\<close>.
\<close>

definition name_words :: regex where
  "name_words =
     seqs [Cls [Rng CHR ''A'' CHR ''Z''], Plus (Cls [Rng CHR ''a'' CHR ''z'']),
           Star (seqs [Plus space, Cls [Rng CHR ''A'' CHR ''Z''],
                       Plus (Cls [Rng CHR ''a'' CHR ''z''])])]"

definition name_patterns :: "regex list" where
  "name_patterns =
     [seqs [alts (map lit [''my name is'', ''i am'', ''i'm'', ''this is'']), Plus space,
            Grp 1 name_words],
      seqs [Bol, Grp 1 name_words,
            Alt (Seq (Plus space) (lit ''here'')) (Seq (Plus space) (lit ''speaking''))]]"

fun name_loop :: "regex list \<Rightarrow> string \<Rightarrow> error + string option" where
  "name_loop [] transcript = Inr None"
| "name_loop (pattern # rest) transcript =
     (case re_search True pattern transcript of
        None \<Rightarrow> name_loop rest transcript
      | Some m \<Rightarrow>
          (case group_text m 1 of
             Inl e \<Rightarrow> Inl e
           | Inr g \<Rightarrow>
               (let name = py_strip g
                in if 2 \<le> length name \<and> length name \<le> 50 then Inr (Some (py_title name))
                   else name_loop rest transcript)))"

definition valid_person :: "string \<Rightarrow> bool" where
  "valid_person person =
     (2 \<le> length person \<and> length person \<le> 50 \<and>
      py_lower person \<notin> set [''i'', ''me'', ''my'', ''you'', ''he'', ''she'', ''we'', ''they''] \<and>
      \<not> py_isdigit person)"

definition extract_name :: "string \<Rightarrow> doc option \<Rightarrow> error + string option" where
  "extract_name transcript doc =
     (case doc of
        None \<Rightarrow> name_loop name_patterns transcript
      | Some d \<Rightarrow>
          (case List.find valid_person (ents_with ''PERSON'' d) of
             None \<Rightarrow> Inr None
           | Some person \<Rightarrow> Inr (Some (py_title person))))"

section \<open>The degree resolution heuristic\<close>

text \<open>
  \<^verbatim>\<open>sorted(SPECIALIZATIONS, key=len, reverse=True)\<close>: longest first, entries of equal
  length in their order in the list (the sort is stable, also under \<^verbatim>\<open>reverse\<close>).
\<close>

definition sorted_specs :: "string list" where
  "sorted_specs = sort_key (\<lambda>spec. - int (length spec)) SPECIALIZATIONS"

subsection \<open>Pattern 1: ``degree in [specialization]''\<close>

text \<open>
  \<^verbatim>\<open>\bdegree\s+in\s+([a-z\s]+(?:engineering|science|technology|administration))\<close>, compiled
  with \<^verbatim>\<open>re.IGNORECASE\<close>.
\<close>

definition degree_in_pattern :: regex where
  "degree_in_pattern =
     seqs [WordB, lit ''degree'', Plus space, lit ''in'', Plus space,
           Grp 1 (Seq (Plus (Cls [Rng CHR ''a'' CHR ''z'', Space]))
                      (alts (map lit [''engineering'', ''science'', ''technology'',
                                      ''administration''])))]"

definition master_indicators :: "string list" where
  "master_indicators =
     [''master'', ''m.tech'', ''mtech'', ''m.e'', ''m e'', ''m.e.'', ''postgraduate'', ''pg'',
      ''masters'']"

definition bachelor_indicators :: "string list" where
  "bachelor_indicators =
     [''bachelor'', ''b.tech'', ''btech'', ''b.e'', ''b e'', ''b.e.'', ''undergraduate'', ''ug'',
      ''bachelors'']"

text \<open>\<^verbatim>\<open>any(ind in context_before or ind in context_after for ind in indicators)\<close>\<close>

definition in_context :: "string \<Rightarrow> string \<Rightarrow> string list \<Rightarrow> bool" where
  "in_context context_before context_after indicators =
     list_ex (\<lambda>ind. py_in ind context_before \<or> py_in ind context_after) indicators"

text \<open>
  The bachelor sub-type, the \<^verbatim>\<open>if\<close>/\<^verbatim>\<open>elif\<close> chain that the source has twice (for
  bachelor indicators alone, and for both families with the bachelor one nearer).
\<close>

definition bachelor_result :: "string \<Rightarrow> string \<Rightarrow> string \<Rightarrow> string" where
  "bachelor_result context_before context_after spec =
     (if in_context context_before context_after [''b.e'', ''b e'', ''b.e.'']
      then ''B.E. in '' @ py_title spec
      else if in_context context_before context_after [''b.tech'', ''btech'', ''b.tech.'']
      then ''B.Tech in '' @ py_title spec
      else if in_context context_before context_after [''bachelor'', ''bachelors'']
      then ''Bachelor's in '' @ py_title spec
      else py_title spec)"

text \<open>
  \<^verbatim>\<open>[context_before.rfind(ind) for ind in indicators if ind in context_before]\<close> extended
  by \<^verbatim>\<open>[degree_pos + context_after.find(ind) for ind in indicators if ind in context_after]\<close>
\<close>

definition indicator_positions :: "string \<Rightarrow> string \<Rightarrow> int \<Rightarrow> string list \<Rightarrow> int list" where
  "indicator_positions context_before context_after degree_pos indicators =
     map (\<lambda>ind. py_rfind context_before ind)
         (filter (\<lambda>ind. py_in ind context_before) indicators)
     @ map (\<lambda>ind. degree_pos + py_find context_after ind)
           (filter (\<lambda>ind. py_in ind context_after) indicators)"

text \<open>\<^verbatim>\<open>min([abs(p - degree_pos) for p in positions if p >= 0])\<close>\<close>

definition closest :: "int list \<Rightarrow> int \<Rightarrow> error + int" where
  "closest positions degree_pos =
     py_min (map (\<lambda>p. abs (p - degree_pos)) (filter (\<lambda>p. p \<ge> 0) positions))"

text \<open>The body of the loop over \<open>sorted_specs\<close>, for the specialization that was accepted.\<close>

definition degree_in_result :: "string \<Rightarrow> nat \<Rightarrow> string \<Rightarrow> error + string" where
  "degree_in_result transcript degree_pos spec =
     (let transcript_lower_full = py_lower transcript;
          context_before = take degree_pos transcript_lower_full;
          context_after = slice transcript_lower_full degree_pos (degree_pos + 200);
          has_master = in_context context_before context_after master_indicators;
          has_bachelor = in_context context_before context_after bachelor_indicators
      in if has_master \<and> \<not> has_bachelor then Inr (''M.Tech in '' @ py_title spec)
         else if has_bachelor \<and> \<not> has_master
         then Inr (bachelor_result context_before context_after spec)
         else if has_master \<and> has_bachelor then
           (let master_positions =
                  indicator_positions context_before context_after (int degree_pos)
                    master_indicators;
                bachelor_positions =
                  indicator_positions context_before context_after (int degree_pos)
                    bachelor_indicators
            in if master_positions \<noteq> [] \<and> bachelor_positions \<noteq> [] then
                 (case closest master_positions (int degree_pos) of
                    Inl e \<Rightarrow> Inl e
                  | Inr closest_master \<Rightarrow>
                      (case closest bachelor_positions (int degree_pos) of
                         Inl e \<Rightarrow> Inl e
                       | Inr closest_bachelor \<Rightarrow>
                           if closest_master < closest_bachelor
                           then Inr (''M.Tech in '' @ py_title spec)
                           else Inr (bachelor_result context_before context_after spec)))
               else Inr (py_title spec))
         else Inr (py_title spec))"

text \<open>
  The rule itself: the first entry of \<open>sorted_specs\<close> that is in the phrase, or that the
  phrase is in, decides; when no entry is accepted the rule gives nothing and the next
  pattern is tried.
\<close>

definition degree_in_rule :: "string \<Rightarrow> error + string option" where
  "degree_in_rule transcript =
     (case re_search True degree_in_pattern transcript of
        None \<Rightarrow> Inr None
      | Some degree_in_match \<Rightarrow>
          (case group_text degree_in_match 1 of
             Inl e \<Rightarrow> Inl e
           | Inr g \<Rightarrow>
               (let spec_mentioned = py_lower (py_strip g)
                in case List.find (\<lambda>spec. py_in spec spec_mentioned \<or> py_in spec_mentioned spec)
                                  sorted_specs of
                     None \<Rightarrow> Inr None
                   | Some spec \<Rightarrow>
                       (case degree_in_result transcript (m_start degree_in_match) spec of
                          Inl e \<Rightarrow> Inl e
                        | Inr result \<Rightarrow> Inr (Some result)))))"

subsection \<open>Pattern 2: full degree names with specialization\<close>

text \<open>\<^verbatim>\<open>spec_pattern = '|'.join(SPECIALIZATIONS)\<close>: the alternatives in the order of the list.\<close>

definition spec_pattern :: regex where
  "spec_pattern = alts (map lit SPECIALIZATIONS)"

text \<open>
  \<^verbatim>\<open>\b(bachelor\s+of\s+(?:technology|engineering|science|arts|commerce))\s+(?:in\s+)?(SPEC)\<close>,
  \<^verbatim>\<open>\b(master\s+of\s+(?:technology|engineering|science|arts|commerce|business\s+administration))\s+(?:in\s+)?(SPEC)\<close>,
  \<^verbatim>\<open>\b(bachelor\s+in\s+(SPEC))\<close>, \<^verbatim>\<open>\b(master\s+in\s+(SPEC))\<close>; they are searched in the
  lower-cased transcript without a flag. The second component of each pair in the source
  is not used.
\<close>

definition full_patterns :: "regex list" where
  "full_patterns =
     [seqs [WordB,
            Grp 1 (seqs [lit ''bachelor'', Plus space, lit ''of'', Plus space,
                         alts (map lit [''technology'', ''engineering'', ''science'', ''arts'',
                                        ''commerce''])]),
            Plus space, Opt (Seq (lit ''in'') (Plus space)), Grp 2 spec_pattern],
      seqs [WordB,
            Grp 1 (seqs [lit ''master'', Plus space, lit ''of'', Plus space,
                         alts (map lit [''technology'', ''engineering'', ''science'', ''arts'',
                                        ''commerce'']
                               @ [seqs [lit ''business'', Plus space, lit ''administration'']])]),
            Plus space, Opt (Seq (lit ''in'') (Plus space)), Grp 2 spec_pattern],
      seqs [WordB,
            Grp 1 (seqs [lit ''bachelor'', Plus space, lit ''in'', Plus space, Grp 2 spec_pattern])],
      seqs [WordB,
            Grp 1 (seqs [lit ''master'', Plus space, lit ''in'', Plus space, Grp 2 spec_pattern])]]"

definition degree_prefix :: "string \<Rightarrow> string" where
  "degree_prefix captured_degree =
     (if py_in ''technology'' captured_degree
      then (if py_in ''bachelor'' captured_degree then ''B.Tech'' else ''M.Tech'')
      else if py_in ''engineering'' captured_degree
      then (if py_in ''bachelor'' captured_degree then ''B.E.'' else ''M.E.'')
      else if py_in ''science'' captured_degree
      then (if py_in ''bachelor'' captured_degree then ''B.Sc'' else ''M.Sc'')
      else if py_in ''arts'' captured_degree
      then (if py_in ''bachelor'' captured_degree then ''B.A.'' else ''M.A.'')
      else if py_in ''commerce'' captured_degree
      then (if py_in ''bachelor'' captured_degree then ''B.Com'' else ''M.Com'')
      else if py_in ''business'' captured_degree then ''MBA''
      else (if py_in ''bachelor'' captured_degree then ''Bachelor's'' else ''Master's''))"

text \<open>
  The loop over \<open>full_patterns\<close>. Each pattern has two groups, so
  \<^verbatim>\<open>len(match.groups()) > 1\<close> holds; \<^verbatim>\<open>match.group(2)\<close> is true when the group took
  part and is not empty.
\<close>

fun full_loop :: "regex list \<Rightarrow> string \<Rightarrow> error + string option" where
  "full_loop [] transcript_lower = Inr None"
| "full_loop (pattern # rest) transcript_lower =
     (case re_search False pattern transcript_lower of
        None \<Rightarrow> full_loop rest transcript_lower
      | Some m \<Rightarrow>
          (case group m 2 of
             None \<Rightarrow> full_loop rest transcript_lower
           | Some g2 \<Rightarrow>
               if g2 = [] then full_loop rest transcript_lower
               else (case group_text m 1 of
                       Inl e \<Rightarrow> Inl e
                     | Inr g1 \<Rightarrow>
                         Inr (Some (degree_prefix (py_lower g1) @ '' in ''
                                    @ py_title (py_strip g2))))))"

subsection \<open>Abbreviated forms (only with an annotation)\<close>

text \<open>
  \<^verbatim>\<open>b\.?\s*tech\.?|btech\<close>, \<^verbatim>\<open>m\.?\s*tech\.?|mtech|m\.?\s*e\.?\<close>, \<^verbatim>\<open>b\.?\s*sc\.?|bsc\<close>,
  \<^verbatim>\<open>m\.?\s*sc\.?|msc\<close>, \<^verbatim>\<open>m\.?\s*b\.?\s*a\.?|mba\<close>
\<close>

definition dotted :: "string \<Rightarrow> string \<Rightarrow> regex" where
  "dotted x y = seqs [lit x, Opt (lit ''.''), Star space, lit y, Opt (lit ''.'')]"

definition b_tech :: regex where "b_tech = Alt (dotted ''b'' ''tech'') (lit ''btech'')"
definition m_tech :: regex where
  "m_tech = alts [dotted ''m'' ''tech'', lit ''mtech'', dotted ''m'' ''e'']"
definition b_sc :: regex where "b_sc = Alt (dotted ''b'' ''sc'') (lit ''bsc'')"
definition m_sc :: regex where "m_sc = Alt (dotted ''m'' ''sc'') (lit ''msc'')"
definition m_b_a :: regex where
  "m_b_a = Alt (seqs [lit ''m'', Opt (lit ''.''), Star space, lit ''b'', Opt (lit ''.''),
                      Star space, lit ''a'', Opt (lit ''.'')])
               (lit ''mba'')"

text \<open>\<^verbatim>\<open>\b(ABBREV)\s+(?:in\s+)?(SPEC)\<close> and \<^verbatim>\<open>\b(ABBREV)\b\<close>, searched with \<^verbatim>\<open>re.IGNORECASE\<close>.\<close>

definition with_spec :: "regex \<Rightarrow> regex" where
  "with_spec abbrev =
     seqs [WordB, Grp 1 abbrev, Plus space, Opt (Seq (lit ''in'') (Plus space)),
           Grp 2 spec_pattern]"

definition alone :: "regex \<Rightarrow> regex" where
  "alone abbrev = seqs [WordB, Grp 1 abbrev, WordB]"

definition abbrev_patterns :: "(regex \<times> string) list" where
  "abbrev_patterns =
     [(with_spec b_tech, ''B.Tech''), (with_spec m_tech, ''M.Tech''),
      (with_spec b_sc, ''B.Sc''), (with_spec m_sc, ''M.Sc'')]"

definition simple_patterns :: "(regex \<times> string) list" where
  "simple_patterns =
     [(alone b_tech, ''B.Tech''), (alone m_tech, ''M.Tech''), (alone b_sc, ''B.Sc''),
      (alone m_sc, ''M.Sc''), (alone m_b_a, ''MBA'')]"

text \<open>
  An abbreviation with a specialization in the same sentence: the loop over the
  patterns for one sentence, and the loop over the sentences with a degree keyword.
\<close>

fun abbrev_in_sent :: "(regex \<times> string) list \<Rightarrow> string \<Rightarrow> string option" where
  "abbrev_in_sent [] sent = None"
| "abbrev_in_sent ((pattern, degree_abbrev) # rest) sent =
     (case re_search True pattern sent of
        None \<Rightarrow> abbrev_in_sent rest sent
      | Some m \<Rightarrow>
          (case group m 2 of
             None \<Rightarrow> abbrev_in_sent rest sent
           | Some g2 \<Rightarrow>
               if g2 = [] then abbrev_in_sent rest sent
               else Some (degree_abbrev @ '' in '' @ py_title (py_strip g2))))"

fun abbrev_sents :: "string list \<Rightarrow> string option" where
  "abbrev_sents [] = None"
| "abbrev_sents (sent # rest) =
     (if has_keyword DEGREE_KEYWORDS (py_lower sent) then
        (case abbrev_in_sent abbrev_patterns sent of
           Some result \<Rightarrow> Some result
         | None \<Rightarrow> abbrev_sents rest)
      else abbrev_sents rest)"

text \<open>
  Pattern 3, the abbreviation first: the first of \<open>simple_patterns\<close> found in a sentence,
  and the first sentence with a degree keyword that has one, with its index.
\<close>

fun simple_in_sent :: "(regex \<times> string) list \<Rightarrow> string \<Rightarrow> string option" where
  "simple_in_sent [] sent = None"
| "simple_in_sent ((pattern, degree_name) # rest) sent =
     (case re_search True pattern sent of
        None \<Rightarrow> simple_in_sent rest sent
      | Some m \<Rightarrow> Some degree_name)"

fun find_degree :: "string list \<Rightarrow> nat \<Rightarrow> (string \<times> nat) option" where
  "find_degree [] i = None"
| "find_degree (sent # rest) i =
     (if has_keyword DEGREE_KEYWORDS (py_lower sent) then
        (case simple_in_sent simple_patterns sent of
           Some degree_name \<Rightarrow> Some (degree_name, i)
         | None \<Rightarrow> find_degree rest (Suc i))
      else find_degree rest (Suc i))"

text \<open>
  \<open>degree_pos\<close>: in the sentence of the abbreviation, the pattern \<^verbatim>\<open>simple_patterns[0]\<close>
  when \<^verbatim>\<open>'tech'\<close> is in the lower-cased degree and \<^verbatim>\<open>simple_patterns[2]\<close> otherwise is
  searched; the position is the offset of the sentence in the lower-cased transcript
  plus the start of that match.
\<close>

definition degree_position :: "string \<Rightarrow> string list \<Rightarrow> string \<Rightarrow> nat \<Rightarrow> int option" where
  "degree_position transcript sentences_list degree_found degree_sentence_idx =
     (if degree_sentence_idx < length sentences_list then
        (let sent = sentences_list ! degree_sentence_idx
         in case re_search True
                   (if py_in ''tech'' (py_lower degree_found) then alone b_tech else alone b_sc)
                   sent of
              None \<Rightarrow> None
            | Some degree_match \<Rightarrow>
                (let char_start = py_find (py_lower transcript) (py_lower sent)
                 in if char_start \<noteq> - 1 then Some (char_start + int (m_start degree_match))
                    else None))
      else None)"

text \<open>The test on a specialization found in the window of 400 characters on each side.\<close>

definition window_accepts :: "string \<Rightarrow> string \<Rightarrow> bool" where
  "window_accepts context_window spec =
     (py_in spec context_window \<and>
      (let spec_pos = py_find context_window spec;
           context_snippet =
             slice context_window (nat (max 0 (spec_pos - 60)))
                   (nat (min (int (length context_window)) (spec_pos + int (length spec) + 60)));
           has_degree_context =
             has_keyword [''degree'', ''studied'', ''graduated'', ''completed'', ''in'', ''of'',
                          ''specialization'', ''major'', ''field'', ''subject'', ''branch'']
                         context_snippet;
           has_skill_context =
             has_keyword [''skill'', ''know'', ''expert'', ''proficient'', ''experience with'',
                          ''worked with'', ''proficient in'', ''good at'']
                         context_snippet
       in has_degree_context \<or> (\<not> has_skill_context \<and> length spec > 5)))"

definition window_spec :: "string \<Rightarrow> int \<Rightarrow> string option" where
  "window_spec transcript degree_pos =
     (let context_start = max 0 (degree_pos - 400);
          context_end = min (int (length transcript)) (degree_pos + 400);
          context_window = py_lower (slice transcript (nat context_start) (nat context_end))
      in List.find (window_accepts context_window) sorted_specs)"

text \<open>The test on a specialization found in an adjacent sentence.\<close>

definition sentence_accepts :: "string \<Rightarrow> string \<Rightarrow> bool" where
  "sentence_accepts sent_text spec =
     (py_in spec sent_text \<and>
      (let has_skill_indicator =
             has_keyword [''skill'', ''know'', ''expert'', ''proficient'', ''experience'',
                          ''worked'', ''proficient in'', ''good at'']
                         sent_text;
           has_degree_indicator =
             has_keyword [''degree'', ''studied'', ''graduated'', ''completed'', ''in'', ''of'',
                          ''specialization'', ''major'', ''field'', ''subject'', ''branch'']
                         sent_text
       in has_degree_indicator \<or> (\<not> has_skill_indicator \<and> length spec > 5)))"

fun adjacent_spec :: "nat list \<Rightarrow> string list \<Rightarrow> error + string option" where
  "adjacent_spec [] sentences_list = Inr None"
| "adjacent_spec (idx # rest) sentences_list =
     (if idx < length sentences_list then
        (case List.find (sentence_accepts (py_lower (sentences_list ! idx))) sorted_specs of
           Some spec \<Rightarrow> Inr (Some spec)
         | None \<Rightarrow> adjacent_spec rest sentences_list)
      else Inl IndexError)"

definition nearby_rule :: "string \<Rightarrow> string list \<Rightarrow> error + string option" where
  "nearby_rule transcript sentences_list =
     (case find_degree sentences_list 0 of
        None \<Rightarrow> Inr None
      | Some (degree_found, degree_sentence_idx) \<Rightarrow>
          (let search_indices =
                 [max 0 (degree_sentence_idx - 1), degree_sentence_idx,
                  min (length sentences_list - 1) (degree_sentence_idx + 1)];
               in_window =
                 (case degree_position transcript sentences_list degree_found
                         degree_sentence_idx of
                    None \<Rightarrow> None
                  | Some degree_pos \<Rightarrow> window_spec transcript degree_pos)
           in case in_window of
                Some spec \<Rightarrow> Inr (Some (degree_found @ '' in '' @ py_title spec))
              | None \<Rightarrow>
                  (case adjacent_spec search_indices sentences_list of
                     Inl e \<Rightarrow> Inl e
                   | Inr (Some spec) \<Rightarrow> Inr (Some (degree_found @ '' in '' @ py_title spec))
                   | Inr None \<Rightarrow> Inr (Some degree_found))))"

text \<open>\<^verbatim>\<open>extract_degree\<close>: the rules in order, the first that gives a result wins.\<close>

definition extract_degree :: "string \<Rightarrow> doc option \<Rightarrow> error + string option" where
  "extract_degree transcript doc =
     (let transcript_lower = py_lower transcript
      in case degree_in_rule transcript of
           Inl e \<Rightarrow> Inl e
         | Inr (Some result) \<Rightarrow> Inr (Some result)
         | Inr None \<Rightarrow>
             (case full_loop full_patterns transcript_lower of
                Inl e \<Rightarrow> Inl e
              | Inr (Some result) \<Rightarrow> Inr (Some result)
              | Inr None \<Rightarrow>
                  (case doc of
                     None \<Rightarrow> Inr None
                   | Some d \<Rightarrow>
                       (case abbrev_sents (sents d) of
                          Some result \<Rightarrow> Inr (Some result)
                        | None \<Rightarrow> nearby_rule transcript (sents d)))))"

section \<open>The extraction orchestrator\<close>

text \<open>A value of the result dictionary: \<^verbatim>\<open>None\<close>, a string, or an integer.\<close>

datatype pyval = PNone | PStr string | PInt int

definition str_val :: "string option \<Rightarrow> pyval" where
  "str_val v = (case v of None \<Rightarrow> PNone | Some s \<Rightarrow> PStr s)"

definition int_val :: "int option \<Rightarrow> pyval" where
  "int_val v = (case v of None \<Rightarrow> PNone | Some n \<Rightarrow> PInt n)"

text \<open>The dictionary with every field \<^verbatim>\<open>None\<close>.\<close>

definition empty_result :: "string \<rightharpoonup> pyval" where
  "empty_result =
     [''name'' \<mapsto> PNone, ''email'' \<mapsto> PNone, ''phone'' \<mapsto> PNone, ''college'' \<mapsto> PNone,
      ''degree'' \<mapsto> PNone, ''graduation_year'' \<mapsto> PNone, ''experience'' \<mapsto> PNone,
      ''location'' \<mapsto> PNone, ''skills'' \<mapsto> PNone]"

text \<open>
  The text given to the tagger for a transcript of more than 2000 characters: the
  relevant sentences (at most 25), then the first three and the last three sentences;
  the first 2000 characters when no sentence is relevant.
\<close>

definition sample_text :: "string \<Rightarrow> string" where
  "sample_text transcript =
     (let sentences = filter (\<lambda>s. s \<noteq> []) (map py_strip (py_split_on CHR ''.'' transcript));
          relevant_sentences =
            filter (\<lambda>sent.
                      has_keyword [''name'', ''i am'', ''my name'', ''from'', ''location'', ''live'',
                                   ''college'', ''university'', ''degree'', ''graduated'',
                                   ''graduate'', ''studied'']
                                  (py_lower sent)
                      \<or> length sent < 100)
                   sentences
      in if relevant_sentences \<noteq> [] then
           py_join ''. '' (take 25 relevant_sentences @ take 3 sentences
                           @ drop (length sentences - 3) sentences)
         else take 2000 transcript)"

text \<open>
  \<^verbatim>\<open>extract_candidate_info\<close>. \<open>nlp\<close> is what \<^verbatim>\<open>load_nlp_model()\<close> returns: the tagger, a
  function from a text to its annotation, or \<open>None\<close> when the model is unavailable.
\<close>

definition extract_candidate_info ::
  "(string \<Rightarrow> doc) option \<Rightarrow> string \<Rightarrow> error + (string \<rightharpoonup> pyval)" where
  "extract_candidate_info nlp transcript =
     (if transcript = [] \<or> length (py_strip transcript) < 10 then Inr empty_result
      else
        (let result = empty_result;
             result = result(''email'' \<mapsto> str_val (extract_email transcript));
             result = result(''phone'' \<mapsto> str_val (extract_phone transcript))
         in case extract_experience transcript of
              Inl e \<Rightarrow> Inl e
            | Inr experience \<Rightarrow>
         (let result = result(''experience'' \<mapsto> str_val experience);
              result = result(''skills'' \<mapsto> str_val (extract_skills transcript));
              doc = (case nlp of
                       None \<Rightarrow> None
                     | Some tagger \<Rightarrow>
                         if length transcript > 2000 then Some (tagger (sample_text transcript))
                         else Some (tagger transcript))
          in case extract_name transcript doc of
               Inl e \<Rightarrow> Inl e
             | Inr name \<Rightarrow>
          (case extract_location transcript doc of
               Inl e \<Rightarrow> Inl e
             | Inr location \<Rightarrow>
          (case extract_graduation_year transcript doc of
               Inl e \<Rightarrow> Inl e
             | Inr graduation_year \<Rightarrow>
          (case extract_college transcript doc of
               Inl e \<Rightarrow> Inl e
             | Inr college \<Rightarrow>
          (case extract_degree transcript doc of
               Inl e \<Rightarrow> Inl e
             | Inr degree \<Rightarrow>
                 Inr (result(''name'' \<mapsto> str_val name, ''location'' \<mapsto> str_val location,
                             ''graduation_year'' \<mapsto> int_val graduation_year,
                             ''college'' \<mapsto> str_val college,
                             ''degree'' \<mapsto> str_val degree)))))))))"

section \<open>Properties of patterns\<close>

text \<open>
  Four properties of a pattern that can be read off its syntax: every character it
  consumes satisfies \<open>Q\<close>; it consumes at least one character; every match sets group \<open>n\<close>;
  and every group \<open>n\<close> in it consumes at least one character, all of them satisfying \<open>Q\<close>.
\<close>

primrec only :: "(char \<Rightarrow> bool) \<Rightarrow> bool \<Rightarrow> regex \<Rightarrow> bool" where
  "only Q ic (Cls cs) = (\<forall>x. cls_match ic cs x \<longrightarrow> Q x)"
| "only Q ic (NCls cs) = (\<forall>x. \<not> cls_match ic cs x \<longrightarrow> Q x)"
| "only Q ic Eps = True"
| "only Q ic (Seq a b) = (only Q ic a \<and> only Q ic b)"
| "only Q ic (Alt a b) = (only Q ic a \<and> only Q ic b)"
| "only Q ic (Star a) = only Q ic a"
| "only Q ic (Grp n a) = only Q ic a"
| "only Q ic WordB = True"
| "only Q ic Bol = True"

primrec nonnull :: "regex \<Rightarrow> bool" where
  "nonnull (Cls cs) = True"
| "nonnull (NCls cs) = True"
| "nonnull Eps = False"
| "nonnull (Seq a b) = (nonnull a \<or> nonnull b)"
| "nonnull (Alt a b) = (nonnull a \<and> nonnull b)"
| "nonnull (Star a) = False"
| "nonnull (Grp n a) = nonnull a"
| "nonnull WordB = False"
| "nonnull Bol = False"

primrec sets_grp :: "nat \<Rightarrow> regex \<Rightarrow> bool" where
  "sets_grp n (Cls cs) = False"
| "sets_grp n (NCls cs) = False"
| "sets_grp n Eps = False"
| "sets_grp n (Seq a b) = (sets_grp n a \<or> sets_grp n b)"
| "sets_grp n (Alt a b) = (sets_grp n a \<and> sets_grp n b)"
| "sets_grp n (Star a) = False"
| "sets_grp n (Grp m a) = (m = n \<or> sets_grp n a)"
| "sets_grp n WordB = False"
| "sets_grp n Bol = False"

primrec grp_chars :: "(char \<Rightarrow> bool) \<Rightarrow> nat \<Rightarrow> bool \<Rightarrow> regex \<Rightarrow> bool" where
  "grp_chars Q n ic (Cls cs) = True"
| "grp_chars Q n ic (NCls cs) = True"
| "grp_chars Q n ic Eps = True"
| "grp_chars Q n ic (Seq a b) = (grp_chars Q n ic a \<and> grp_chars Q n ic b)"
| "grp_chars Q n ic (Alt a b) = (grp_chars Q n ic a \<and> grp_chars Q n ic b)"
| "grp_chars Q n ic (Star a) = grp_chars Q n ic a"
| "grp_chars Q n ic (Grp m a) = (grp_chars Q n ic a \<and> (m = n \<longrightarrow> only Q ic a \<and> nonnull a))"
| "grp_chars Q n ic WordB = True"
| "grp_chars Q n ic Bol = True"

text \<open>The groups \<open>n\<close> recorded so far are not empty and consist of characters satisfying \<open>Q\<close>.\<close>

definition grp_inv :: "(char \<Rightarrow> bool) \<Rightarrow> nat \<Rightarrow> caps \<Rightarrow> bool" where
  "grp_inv Q n c = (\<forall>g. map_of c n = Some g \<longrightarrow> g \<noteq> [] \<and> list_all Q g)"





section \<open>The claims in the words of the specification\<close>



text \<open>
  The year that a sentence gives to the scan of the annotated sentences: the sentence
  has a graduation keyword and the first match of the year pattern in it is a year that
  validates.
\<close>

definition sentence_year :: "string \<Rightarrow> int option" where
  "sentence_year sent =
     (if has_keyword GRADUATION_KEYWORDS (py_lower sent) then
        (case re_search False YEAR_PATTERN sent of
           None \<Rightarrow> None
         | Some m \<Rightarrow>
             (case group m 1 of
                None \<Rightarrow> None
              | Some g \<Rightarrow>
                  (case py_int g of
                     None \<Rightarrow> None
                   | Some year \<Rightarrow> if validate_year year then Some year else None)))
      else None)"

text \<open>The valid years among the matches of the recent-year pattern in the transcript.\<close>

definition recent_valid_years :: "string \<Rightarrow> int list" where
  "recent_valid_years transcript =
     filter validate_year (List.map_filter py_int (findall1 False RECENT_YEAR_PATTERN transcript))"










section \<open>The matcher\<close>

declare re_m.simps(6) [simp del]
declare search_from.simps [simp del] finditer_from.simps [simp del] sub_from.simps [simp del]
declare digits_of.simps [simp del]

lemma re_m_Seq_mem:
  "(j, c') \<in> set (re_m ic (Seq a b) s i c) \<longleftrightarrow>
     (\<exists>k d. (k, d) \<in> set (re_m ic a s i c) \<and> (j, c') \<in> set (re_m ic b s k d))"
  by auto

lemma re_m_Star_mem:
  "(j, c') \<in> set (re_m ic (Star a) s i c) \<longleftrightarrow>
     (j = i \<and> c' = c) \<or>
     (\<exists>k d. (k, d) \<in> set (re_m ic a s i c) \<and> i < k \<and> k \<le> length s
            \<and> (j, c') \<in> set (re_m ic (Star a) s k d))"
  by (subst re_m.simps(6)) (auto split: if_splits)

lemma re_m_Grp_mem:
  "(j, c') \<in> set (re_m ic (Grp n a) s i c) \<longleftrightarrow>
     (\<exists>d. (j, d) \<in> set (re_m ic a s i c) \<and> c' = (n, slice s i j) # d)"
  by auto

text \<open>A match ends at or after its start, and inside the string.\<close>

lemma re_m_ge: "(j, c') \<in> set (re_m ic r s i c) \<Longrightarrow> i \<le> j"
proof (induction ic r s i c arbitrary: j c' rule: re_m.induct)
  case (4 ic a b s i c)
  from "4.prems" obtain k d
    where kd: "(k, d) \<in> set (re_m ic a s i c)" "(j, c') \<in> set (re_m ic b s k d)"
    unfolding re_m_Seq_mem by blast
  from "4.IH"(1)[OF kd(1)] "4.IH"(2)[OF kd(1) refl kd(2)] show ?case by simp
next
  case (6 ic a s i c)
  from "6.prems" consider "j = i" |
    k d where "(k, d) \<in> set (re_m ic a s i c)" "i < k" "k \<le> length s"
              "(j, c') \<in> set (re_m ic (Star a) s k d)"
    unfolding re_m_Star_mem[of j c' ic a s i c] by blast
  then show ?case
  proof cases
    case 1 then show ?thesis by simp
  next
    case 2
    from "6.IH"(2)[OF 2(1) refl _ 2(4)] 2(2,3) show ?thesis by simp
  qed
next
  case (7 ic n a s i c)
  then show ?case unfolding re_m_Grp_mem by blast
qed (auto split: if_splits)

lemma re_m_le: "(j, c') \<in> set (re_m ic r s i c) \<Longrightarrow> i \<le> length s \<Longrightarrow> j \<le> length s"
proof (induction ic r s i c arbitrary: j c' rule: re_m.induct)
  case (4 ic a b s i c)
  from "4.prems" obtain k d
    where kd: "(k, d) \<in> set (re_m ic a s i c)" "(j, c') \<in> set (re_m ic b s k d)"
    unfolding re_m_Seq_mem by blast
  from "4.IH"(1)[OF kd(1) "4.prems"(2)] have "k \<le> length s" .
  from "4.IH"(2)[OF kd(1) refl kd(2) this] show ?case .
next
  case (6 ic a s i c)
  from "6.prems" consider "j = i" |
    k d where "(k, d) \<in> set (re_m ic a s i c)" "i < k" "k \<le> length s"
              "(j, c') \<in> set (re_m ic (Star a) s k d)"
    unfolding re_m_Star_mem[of j c' ic a s i c] by blast
  then show ?case
  proof cases
    case 1 with "6.prems" show ?thesis by simp
  next
    case 2
    from "6.IH"(2)[OF 2(1) refl _ 2(4)] 2(2,3) show ?thesis by simp
  qed
next
  case (7 ic n a s i c)
  then show ?case unfolding re_m_Grp_mem by blast
qed (auto split: if_splits)

lemma re_m_only:
  "(j, c') \<in> set (re_m ic r s i c) \<Longrightarrow> only Q ic r \<Longrightarrow> i \<le> k \<Longrightarrow> k < j \<Longrightarrow> Q (s ! k)"
proof (induction ic r s i c arbitrary: j c' k rule: re_m.induct)
  case (1 ic cs s i c)
  then have "k = i" by (auto split: if_splits)
  with 1 show ?case by (auto split: if_splits)
next
  case (2 ic cs s i c)
  then have "k = i" by (auto split: if_splits)
  with 2 show ?case by (auto split: if_splits)
next
  case (4 ic a b s i c)
  from "4.prems" obtain m d
    where kd: "(m, d) \<in> set (re_m ic a s i c)" "(j, c') \<in> set (re_m ic b s m d)"
    unfolding re_m_Seq_mem by blast
  show ?case
  proof (cases "k < m")
    case True
    from "4.IH"(1)[OF kd(1) _ "4.prems"(3) True] "4.prems"(2) show ?thesis by simp
  next
    case False
    then have "m \<le> k" by simp
    from "4.IH"(2)[OF kd(1) refl kd(2) _ this "4.prems"(4)] "4.prems"(2) show ?thesis by simp
  qed
next
  case (6 ic a s i c)
  from "6.prems" consider "j = i" |
    m d where "(m, d) \<in> set (re_m ic a s i c)" "i < m" "m \<le> length s"
              "(j, c') \<in> set (re_m ic (Star a) s m d)"
    unfolding re_m_Star_mem[of j c' ic a s i c] by blast
  then show ?case
  proof cases
    case 1 with "6.prems" show ?thesis by simp
  next
    case 2
    show ?thesis
    proof (cases "k < m")
      case True
      from "6.IH"(1)[OF 2(1) _ "6.prems"(3) True] "6.prems"(2) show ?thesis by simp
    next
      case False
      then have "m \<le> k" by simp
      from "6.IH"(2)[OF 2(1) refl _ 2(4) "6.prems"(2) this "6.prems"(4)] 2(2,3)
      show ?thesis by simp
    qed
  qed
next
  case (7 ic n a s i c)
  then show ?case unfolding re_m_Grp_mem by auto
qed (auto split: if_splits)

lemma re_m_nonnull: "(j, c') \<in> set (re_m ic r s i c) \<Longrightarrow> nonnull r \<Longrightarrow> i < j"
proof (induction r arbitrary: i j c c')
  case (Seq a b)
  from Seq.prems obtain m d
    where kd: "(m, d) \<in> set (re_m ic a s i c)" "(j, c') \<in> set (re_m ic b s m d)"
    unfolding re_m_Seq_mem by blast
  from re_m_ge[OF kd(1)] re_m_ge[OF kd(2)] Seq.IH(1)[OF kd(1)] Seq.IH(2)[OF kd(2)] Seq.prems(2)
  show ?case by auto
next
  case (Grp n a)
  then show ?case unfolding re_m_Grp_mem by auto
qed (auto split: if_splits)

text \<open>The text of a group that consumes characters of one kind only.\<close>

lemma slice_all:
  assumes "i < j" "j \<le> length s" "\<And>k. i \<le> k \<Longrightarrow> k < j \<Longrightarrow> Q (s ! k)"
  shows "slice s i j \<noteq> [] \<and> list_all Q (slice s i j)"
proof -
  have len: "length (slice s i j) = j - i" using assms(1,2) by (simp add: slice_def)
  have "\<And>k. k < j - i \<Longrightarrow> slice s i j ! k = s ! (i + k)"
    using assms(1,2) by (simp add: slice_def)
  then have "\<And>k. k < length (slice s i j) \<Longrightarrow> Q (slice s i j ! k)"
    using assms(3) len by simp
  then have "list_all Q (slice s i j)" by (simp add: list_all_length)
  moreover have "slice s i j \<noteq> []" using len assms(1) by auto
  ultimately show ?thesis by simp
qed




text \<open>Groups are never unset by matching on.\<close>

lemma re_m_keeps_grp:
  "(j, c') \<in> set (re_m ic r s i c) \<Longrightarrow> map_of c n \<noteq> None \<Longrightarrow> map_of c' n \<noteq> None"
proof (induction ic r s i c arbitrary: j c' rule: re_m.induct)
  case (4 ic a b s i c)
  from "4.prems" obtain k d
    where kd: "(k, d) \<in> set (re_m ic a s i c)" "(j, c') \<in> set (re_m ic b s k d)"
    unfolding re_m_Seq_mem by blast
  from "4.IH"(1)[OF kd(1) "4.prems"(2)] have "map_of d n \<noteq> None" .
  from "4.IH"(2)[OF kd(1) refl kd(2) this] show ?case .
next
  case (6 ic a s i c)
  from "6.prems" consider "j = i" "c' = c" |
    k d where "(k, d) \<in> set (re_m ic a s i c)" "i < k" "k \<le> length s"
              "(j, c') \<in> set (re_m ic (Star a) s k d)"
    unfolding re_m_Star_mem[of j c' ic a s i c] by blast
  then show ?case
  proof cases
    case 1 with "6.prems" show ?thesis by simp
  next
    case 2
    from "6.IH"(1)[OF 2(1) "6.prems"(2)] have "map_of d n \<noteq> None" .
    from "6.IH"(2)[OF 2(1) refl _ 2(4) this] 2(2,3) show ?thesis by simp
  qed
next
  case (7 ic m a s i c)
  from "7.prems" obtain d where d: "(j, d) \<in> set (re_m ic a s i c)" "c' = (m, slice s i j) # d"
    unfolding re_m_Grp_mem by blast
  from "7.IH"[OF d(1) "7.prems"(2)] d(2) show ?case by auto
qed (auto split: if_splits)

lemma re_m_sets_grp:
  "(j, c') \<in> set (re_m ic r s i c) \<Longrightarrow> sets_grp n r \<Longrightarrow> map_of c' n \<noteq> None"
proof (induction r arbitrary: i j c c')
  case (Seq a b)
  from Seq.prems obtain k d
    where kd: "(k, d) \<in> set (re_m ic a s i c)" "(j, c') \<in> set (re_m ic b s k d)"
    unfolding re_m_Seq_mem by blast
  show ?case
  proof (cases "sets_grp n a")
    case True
    from Seq.IH(1)[OF kd(1) True] have "map_of d n \<noteq> None" .
    from re_m_keeps_grp[OF kd(2) this] show ?thesis .
  next
    case False
    with Seq.prems(2) have "sets_grp n b" by simp
    from Seq.IH(2)[OF kd(2) this] show ?thesis .
  qed
next
  case (Grp m a)
  from Grp.prems obtain d where d: "(j, d) \<in> set (re_m ic a s i c)" "c' = (m, slice s i j) # d"
    unfolding re_m_Grp_mem by blast
  show ?case
  proof (cases "m = n")
    case True with d(2) show ?thesis by simp
  next
    case False
    with Grp.prems(2) have "sets_grp n a" by simp
    from Grp.IH[OF d(1) this] d(2) show ?thesis by auto
  qed
qed (auto split: if_splits)

lemma re_m_grp_chars:
  "(j, c') \<in> set (re_m ic r s i c) \<Longrightarrow> grp_chars Q n ic r \<Longrightarrow> i \<le> length s \<Longrightarrow>
   grp_inv Q n c \<Longrightarrow> grp_inv Q n c'"
proof (induction ic r s i c arbitrary: j c' rule: re_m.induct)
  case (4 ic a b s i c)
  from "4.prems" obtain k d
    where kd: "(k, d) \<in> set (re_m ic a s i c)" "(j, c') \<in> set (re_m ic b s k d)"
    unfolding re_m_Seq_mem by blast
  from "4.prems"(2) have ga: "grp_chars Q n ic a" and gb: "grp_chars Q n ic b" by simp_all
  from "4.IH"(1)[OF kd(1) ga "4.prems"(3,4)] have "grp_inv Q n d" .
  from "4.IH"(2)[OF kd(1) refl kd(2) gb re_m_le[OF kd(1) "4.prems"(3)] this] show ?case .
next
  case (5 ic a b s i c)
  then show ?case by auto
next
  case (6 ic a s i c)
  from "6.prems" consider "j = i" "c' = c" |
    k d where "(k, d) \<in> set (re_m ic a s i c)" "i < k" "k \<le> length s"
              "(j, c') \<in> set (re_m ic (Star a) s k d)"
    unfolding re_m_Star_mem[of j c' ic a s i c] by blast
  then show ?case
  proof cases
    case 1 with "6.prems" show ?thesis by simp
  next
    case 2
    from "6.prems"(2) have ga: "grp_chars Q n ic a" by simp
    from "6.IH"(1)[OF 2(1) ga "6.prems"(3,4)] have "grp_inv Q n d" .
    from "6.IH"(2)[OF 2(1) refl _ 2(4) "6.prems"(2) 2(3) this] 2(2,3) show ?thesis by simp
  qed
next
  case (7 ic m a s i c)
  from "7.prems" obtain d where d: "(j, d) \<in> set (re_m ic a s i c)" "c' = (m, slice s i j) # d"
    unfolding re_m_Grp_mem by blast
  from "7.prems"(2) have ga: "grp_chars Q n ic a" by simp
  from "7.IH"[OF d(1) ga "7.prems"(3,4)] have inv: "grp_inv Q n d" .
  show ?case
  proof (cases "m = n")
    case True
    with "7.prems"(2) have o: "only Q ic a" and nn: "nonnull a" by simp_all
    from re_m_nonnull[OF d(1) nn] have "i < j" .
    moreover from re_m_le[OF d(1) "7.prems"(3)] have "j \<le> length s" .
    ultimately have "slice s i j \<noteq> [] \<and> list_all Q (slice s i j)"
      using re_m_only[OF d(1) o] by (intro slice_all) auto
    with True d(2) show ?thesis by (simp add: grp_inv_def)
  next
    case False
    with inv d(2) show ?thesis by (simp add: grp_inv_def)
  qed
qed (auto split: if_splits)

text \<open>What a successful search returns.\<close>

lemma search_from_Some:
  "search_from ic r s i = Some m \<Longrightarrow>
     i \<le> m_start m \<and> m_start m \<le> length s \<and>
     (\<exists>rest. re_m ic r s (m_start m) [] = (m_end m, m_caps m) # rest)"
proof (induction ic r s i rule: search_from.induct)
  case (1 ic r s i)
  show ?case
  proof (cases "length s < i")
    case True
    with "1.prems" show ?thesis by (simp add: search_from.simps)
  next
    case False
    show ?thesis
    proof (cases "re_m ic r s i []")
      case Nil
      with False "1.prems" have "search_from ic r s (Suc i) = Some m"
        by (simp add: search_from.simps[of ic r s i])
      from "1.IH"[OF False Nil this] show ?thesis by auto
    next
      case (Cons p rest)
      obtain j c where p: "p = (j, c)" by (cases p)
      with False Cons "1.prems" have "m = \<lparr>m_start = i, m_end = j, m_caps = c\<rparr>"
        by (simp add: search_from.simps[of ic r s i])
      with False Cons p show ?thesis by simp
    qed
  qed
qed

lemma search_from_mem:
  assumes "search_from ic r s i = Some m"
  shows "(m_end m, m_caps m) \<in> set (re_m ic r s (m_start m) [])"
  using search_from_Some[OF assms] by auto

lemma search_from_grp:
  assumes "search_from ic r s i = Some m" "sets_grp n r" "grp_chars Q n ic r"
  shows "\<exists>g. group m n = Some g \<and> g \<noteq> [] \<and> list_all Q g"
proof -
  from search_from_Some[OF assms(1)] have le: "m_start m \<le> length s" by simp
  note mem = search_from_mem[OF assms(1)]
  from re_m_sets_grp[OF mem assms(2)] obtain g where g: "map_of (m_caps m) n = Some g" by auto
  have "grp_inv Q n []" by (simp add: grp_inv_def)
  from re_m_grp_chars[OF mem assms(3) le this] g have "g \<noteq> [] \<and> list_all Q g"
    by (simp add: grp_inv_def)
  with g show ?thesis by (simp add: group_def)
qed


lemma finditer_from_grp:
  "m \<in> set (finditer_from ic r s i) \<Longrightarrow> sets_grp n r \<Longrightarrow> grp_chars Q n ic r \<Longrightarrow>
     \<exists>g. group m n = Some g \<and> g \<noteq> [] \<and> list_all Q g"
proof (induction ic r s i rule: finditer_from.induct)
  case (1 ic r s i)
  show ?case
  proof (cases "length s < i")
    case True
    with "1.prems" show ?thesis by (simp add: finditer_from.simps)
  next
    case False
    show ?thesis
    proof (cases "search_from ic r s i")
      case None
      with False "1.prems" show ?thesis by (simp add: finditer_from.simps[of ic r s i])
    next
      case (Some m')
      with False "1.prems"(1)
      have "m = m' \<or> m \<in> set (finditer_from ic r s (max (Suc i) (m_end m')))"
        by (simp add: finditer_from.simps[of ic r s i])
      then show ?thesis
      proof
        assume "m = m'"
        with Some search_from_grp[OF _ "1.prems"(2,3)] show ?thesis by blast
      next
        assume "m \<in> set (finditer_from ic r s (max (Suc i) (m_end m')))"
        from "1.IH"[OF False Some this "1.prems"(2,3)] show ?thesis .
      qed
    qed
  qed
qed



section \<open>The extractors\<close>

subsection \<open>Experience\<close>

lemma only_digit: "only is_digit ic digit"
  by (simp add: cls_match_def)


lemma group_int_digits:
  assumes "re_search ic pattern s = Some m" "sets_grp 1 pattern" "grp_chars is_digit 1 ic pattern"
  shows "\<exists>g v. group m 1 = Some g \<and> py_int g = Some v \<and> group_int m 1 = Inr v"
proof -
  from search_from_grp[OF assms(1)[unfolded re_search_def] assms(2,3)]
  obtain g where g: "group m 1 = Some g" "g \<noteq> []" "list_all is_digit g" by blast
  then have "py_int g \<noteq> None" by (simp add: py_int_def py_isdigit_def)
  then obtain v where "py_int g = Some v" by auto
  with g show ?thesis by (simp add: group_int_def)
qed




subsection \<open>Graduation year\<close>

lemma year_pattern_grp: "sets_grp 1 YEAR_PATTERN \<and> grp_chars is_digit 1 False YEAR_PATTERN"
  by (simp add: YEAR_PATTERN_def seqs_def lit_def cls_match_def is_digit_def ord_def
                eval_nat_numeral)

lemma recent_year_pattern_grp:
  "sets_grp 1 RECENT_YEAR_PATTERN \<and> grp_chars is_digit 1 False RECENT_YEAR_PATTERN"
  by (simp add: RECENT_YEAR_PATTERN_def seqs_def lit_def cls_match_def is_digit_def ord_def
                eval_nat_numeral)

lemma graduation_sents_eq:
  "graduation_sents ss =
     Inr (case List.find (\<lambda>s. sentence_year s \<noteq> None) ss of
            None \<Rightarrow> None
          | Some s \<Rightarrow> sentence_year s)"
proof (induction ss)
  case Nil
  then show ?case by simp
next
  case (Cons sent rest)
  show ?case
  proof (cases "has_keyword GRADUATION_KEYWORDS (py_lower sent)")
    case False
    then show ?thesis using Cons by (simp add: sentence_year_def)
  next
    case kw: True
    show ?thesis
    proof (cases "re_search False YEAR_PATTERN sent")
      case None
      then show ?thesis using kw Cons by (simp add: sentence_year_def)
    next
      case (Some m)
      from group_int_digits[OF Some] year_pattern_grp
      obtain g v where gv: "group m 1 = Some g" "py_int g = Some v" "group_int m 1 = Inr v"
        by blast
      show ?thesis using kw Some gv Cons by (simp add: sentence_year_def)
    qed
  qed
qed

lemma findall1_digits:
  assumes "x \<in> set (findall1 ic r s)" "sets_grp 1 r" "grp_chars is_digit 1 ic r"
  shows "py_int x \<noteq> None"
proof -
  from assms(1) obtain m where m: "m \<in> set (finditer_from ic r s 0)"
    and x: "x = (case group m 1 of None \<Rightarrow> [] | Some g \<Rightarrow> g)"
    by (auto simp: findall1_def)
  from finditer_from_grp[OF m assms(2,3)] x show ?thesis
    by (auto simp: py_int_def py_isdigit_def)
qed







lemma valid_years_eq:
  "(\<And>y. y \<in> set ys \<Longrightarrow> py_int y \<noteq> None) \<Longrightarrow>
     valid_years ys = Inr (filter validate_year (List.map_filter py_int ys))"
proof (induction ys)
  case Nil
  then show ?case by simp
next
  case (Cons y ys)
  from Cons.prems[of y] obtain v where v: "py_int y = Some v" by auto
  from Cons.IH Cons.prems
  have "valid_years ys = Inr (filter validate_year (List.map_filter py_int ys))" by simp
  with v show ?case by simp
qed

lemma foldl_max_Max: "foldl max (y :: int) ys = Max (set (y # ys))"
proof -
  have "(\<lambda>x s. max s x) = (max :: int \<Rightarrow> int \<Rightarrow> int)"
    by (intro ext) (simp add: max.commute)
  then show ?thesis by (simp only: foldl_conv_fold Max.set_eq_fold)
qed

lemma graduation_fallback_eq:
  "graduation_fallback transcript =
     Inr (if recent_valid_years transcript = [] then None
          else Some (Max (set (recent_valid_years transcript))))"
proof -
  have v: "valid_years (findall1 False RECENT_YEAR_PATTERN transcript)
             = Inr (recent_valid_years transcript)"
    unfolding recent_valid_years_def
    using findall1_digits recent_year_pattern_grp by (intro valid_years_eq) blast
  show ?thesis
  proof (cases "findall1 False RECENT_YEAR_PATTERN transcript = []")
    case True
    then show ?thesis by (simp add: graduation_fallback_def recent_valid_years_def)
  next
    case False
    show ?thesis
    proof (cases "recent_valid_years transcript")
      case Nil
      with False v show ?thesis by (simp add: graduation_fallback_def)
    next
      case (Cons y ys)
      with False v foldl_max_Max[of y ys] show ?thesis by (simp add: graduation_fallback_def)
    qed
  qed
qed

lemma sentence_year_valid: "sentence_year s = Some y \<Longrightarrow> validate_year y"
  by (auto simp: sentence_year_def split: if_splits option.splits)

lemma extract_graduation_year_eq:
  "extract_graduation_year transcript doc =
     (case doc of
        None \<Rightarrow> graduation_fallback transcript
      | Some d \<Rightarrow>
          (case List.find (\<lambda>s. sentence_year s \<noteq> None) (sents d) of
             None \<Rightarrow> graduation_fallback transcript
           | Some s \<Rightarrow> Inr (sentence_year s)))"
proof (cases doc)
  case None
  then show ?thesis by (simp add: extract_graduation_year_def)
next
  case (Some d)
  show ?thesis
  proof (cases "List.find (\<lambda>s. sentence_year s \<noteq> None) (sents d)")
    case None
    with Some show ?thesis by (simp add: extract_graduation_year_def graduation_sents_eq)
  next
    case (Some s)
    then have "sentence_year s \<noteq> None" by (auto simp: find_Some_iff)
    then obtain y where "sentence_year s = Some y" by auto
    with Some \<open>doc = Some d\<close> show ?thesis
      by (simp add: extract_graduation_year_def graduation_sents_eq)
  qed
qed






text \<open>
  C10. A graduation year that is returned lies between 1950 and 2030, with or without
  an annotation, and so does the \<^verbatim>\<open>graduation_year\<close> of the result dictionary. The year
  2035 matches the recent-year pattern and is not returned.
\<close>

theorem graduation_year_in_range:
  "(extract_graduation_year transcript doc = Inr (Some year) \<longrightarrow> 1950 \<le> year \<and> year \<le> 2030) \<and>
   (extract_candidate_info nlp transcript = Inr result \<and>
    result ''graduation_year'' = Some (PInt year) \<longrightarrow> 1950 \<le> year \<and> year \<le> 2030) \<and>
   findall1 False RECENT_YEAR_PATTERN ''I will finish in 2035'' = [''2035''] \<and>
   extract_graduation_year ''I will finish in 2035'' None = Inr None"
proof -
  have fb: "graduation_fallback t = Inr (Some y) \<Longrightarrow> 1950 \<le> y \<and> y \<le> 2030" for t y
  proof -
    assume a: "graduation_fallback t = Inr (Some y)"
    then have ne: "recent_valid_years t \<noteq> []" and y: "y = Max (set (recent_valid_years t))"
      by (auto simp: graduation_fallback_eq split: if_splits)
    from ne have "Max (set (recent_valid_years t)) \<in> set (recent_valid_years t)"
      by (intro Max_in) auto
    with y have "validate_year y" by (simp add: recent_valid_years_def)
    then show ?thesis by (simp add: validate_year_def)
  qed
  have g: "extract_graduation_year t d = Inr (Some y) \<Longrightarrow> 1950 \<le> y \<and> y \<le> 2030" for t d y
  proof -
    assume a: "extract_graduation_year t d = Inr (Some y)"
    show ?thesis
    proof (cases d)
      case None
      with a fb show ?thesis by (simp add: extract_graduation_year_eq)
    next
      case (Some dd)
      show ?thesis
      proof (cases "List.find (\<lambda>s. sentence_year s \<noteq> None) (sents dd)")
        case None
        with a Some fb show ?thesis by (simp add: extract_graduation_year_eq)
      next
        case (Some s)
        with a \<open>d = Some dd\<close> have "sentence_year s = Some y"
          by (simp add: extract_graduation_year_eq)
        from sentence_year_valid[OF this] show ?thesis by (simp add: validate_year_def)
      qed
    qed
  qed
  have c: "extract_candidate_info nlp transcript = Inr result \<Longrightarrow>
           result ''graduation_year'' = Some (PInt year) \<Longrightarrow> 1950 \<le> year \<and> year \<le> 2030"
  proof -
    assume a: "extract_candidate_info nlp transcript = Inr result"
       and b: "result ''graduation_year'' = Some (PInt year)"
    from a b obtain d where "extract_graduation_year transcript d = Inr (Some year)"
      by (auto simp: extract_candidate_info_def empty_result_def Let_def int_val_def
               split: if_splits sum.splits option.splits)
    from g[OF this] show ?thesis .
  qed
  have e1: "findall1 False RECENT_YEAR_PATTERN ''I will finish in 2035'' = [''2035'']"
    by code_simp
  have e2: "extract_graduation_year ''I will finish in 2035'' None = Inr None"
    by code_simp
  from g c e1 e2 show ?thesis by blast
qed

text \<open>The theorem at a transcript whose years are 2015 and 2020.\<close>

theorem graduation_year_in_range_witness:
  "extract_graduation_year ''I joined in 2015 and I left the company in 2020'' None
     = Inr (Some 2020) \<and> (1950::int) \<le> 2020 \<and> (2020::int) \<le> 2030"
proof -
  have e: "extract_graduation_year ''I joined in 2015 and I left the company in 2020'' None
     = Inr (Some 2020)"
    by code_simp
  from graduation_year_in_range[of "''I joined in 2015 and I left the company in 2020''" None 2020] e
  show ?thesis by simp
qed

subsection \<open>No extractor raises\<close>
























subsection \<open>The result dictionary\<close>






subsection \<open>Skills\<close>







subsection \<open>Phone\<close>




















subsection \<open>College\<close>





text \<open>
  The list of bare words that the code excludes has \<^verbatim>\<open>university\<close>, \<^verbatim>\<open>college\<close> and
  \<^verbatim>\<open>school\<close> only: a span that is the bare keyword \<^verbatim>\<open>Institute\<close> is returned.
\<close>

lemma extract_college_bare_institute:
  "extract_college [] (Some \<lparr>ents = [(''Institute'', ''ORG'')], sents = []\<rparr>)
     = Inr (Some ''Institute'')"
  by code_simp

subsection \<open>Degree\<close>







end
